theory Spec2Isabelle
  imports Complex_Main "HOL-Library.Sublist"
begin

section \<open>Data model of the ControlNet sampler (sampler.py)\<close>

text \<open>
  Tensors of floating point numbers are lists of reals (the flattened entries); rounding of
  float32 arithmetic, NaN and infinities are not represented. The operands of an elementwise
  operation have the same shape in the sampler, so the operations below pair the entries
  position by position. A tensor filled with one coefficient (\<^verbatim>\<open>torch.full((b, 1, 1, 1), v)\<close>)
  acts as the scalar \<open>v\<close>. Timestep tensors (dtype long) are lists of integers.
\<close>

type_synonym tensor = "real list"

type_synonym ttensor = "int list"

datatype error =
  AssertionError | ValueError | KeyError | TypeError | AttributeError | IndexError
  | ZeroDivisionError | ServiceError

datatype Sampler = PLMS | DDIM

definition tadd :: "tensor \<Rightarrow> tensor \<Rightarrow> tensor" where
  "tadd a b = map2 (+) a b"

definition tsub :: "tensor \<Rightarrow> tensor \<Rightarrow> tensor" where
  "tsub a b = map2 (-) a b"

definition tmul :: "tensor \<Rightarrow> tensor \<Rightarrow> tensor" where
  "tmul a b = map2 (*) a b"

definition smul :: "real \<Rightarrow> tensor \<Rightarrow> tensor" where
  "smul k a = map (\<lambda>v. k * v) a"

definition muls :: "tensor \<Rightarrow> real \<Rightarrow> tensor" where
  "muls a k = map (\<lambda>v. v * k) a"

definition sdiv :: "tensor \<Rightarrow> real \<Rightarrow> tensor" where
  "sdiv a k = map (\<lambda>v. v / k) a"

definition rsub :: "real \<Rightarrow> tensor \<Rightarrow> tensor" where
  "rsub k a = map (\<lambda>v. k - v) a"

text \<open>
  A conditioning is the dict with the slots \<^verbatim>\<open>c_crossattn\<close> and \<^verbatim>\<open>c_concat\<close>: a missing
  key is \<open>None\<close>, a slot holding Python's \<^verbatim>\<open>None\<close> is \<open>Some None\<close>.
\<close>

type_synonym conditioning = "string \<rightharpoonup> tensor option"

text \<open>
  The request dicts that \<^verbatim>\<open>apply_model\<close> builds have fixed keys, so they are records; the
  entries \<^verbatim>\<open>control_0 .. control_k\<close> of the denoiser's request are the list \<open>u_control\<close>.
  \<^verbatim>\<open>device_view\<close> (utils, not part of the module) only wraps a tensor's device memory and
  is the identity here.
\<close>

record control_args =
  c_x :: tensor
  c_t :: ttensor
  c_context :: "tensor option"
  c_hint :: tensor

record unet_args =
  u_x :: tensor
  u_t :: ttensor
  u_context :: "tensor option"
  u_control :: "tensor list"

text \<open>
  A response dict is probed by key: \<open>Control i\<close> stands for the key \<^verbatim>\<open>f"control_{i}"\<close>,
  \<open>Logits\<close> for \<^verbatim>\<open>"logits"\<close>. It is an association list with distinct keys, so its
  length is \<^verbatim>\<open>len\<close> of the dict.
\<close>

datatype out_key = Logits | Control nat | OtherKey string

type_synonym out_dict = "(out_key \<times> tensor) list"

type_synonym kwargs = "(string \<times> real) list"

type_synonym score_corrector =
  "tensor \<Rightarrow> tensor \<Rightarrow> ttensor option \<Rightarrow> conditioning \<Rightarrow> kwargs \<Rightarrow> tensor"

text \<open>
  The external collaborators: the two inference services (which may fail), the attributes
  read from \<^verbatim>\<open>self.model\<close>, and the random draws (\<^verbatim>\<open>noise_like\<close>, \<^verbatim>\<open>torch.randn\<close>,
  the keep-mask of \<^verbatim>\<open>dropout\<close>, \<^verbatim>\<open>q_sample\<close>), each indexed by the number of the draw.
\<close>

record services =
  model_infer :: "unet_args \<Rightarrow> error + out_dict"
  control_infer :: "control_args \<Rightarrow> error + out_dict"
  parameterization :: string
  q_sample :: "tensor \<Rightarrow> ttensor \<Rightarrow> nat \<Rightarrow> tensor"
  noise_like :: "nat \<Rightarrow> bool \<Rightarrow> nat \<Rightarrow> real"
  randn :: "nat \<Rightarrow> nat \<Rightarrow> real"
  dropout_keep :: "real \<Rightarrow> nat \<Rightarrow> nat \<Rightarrow> bool"
  model_alphas_cumprod :: "real list"
  model_alphas_cumprod_prev :: "real list"
  model_sqrt_one_minus_alphas_cumprod :: "real list"
  model_ddim_sigmas_for_original_num_steps :: "real list"

datatype event = ControlCall control_args | ModelCall unet_args

record state =
  calls :: "event list"
  rng :: nat

type_synonym 'a M = "state \<Rightarrow> (error + 'a) \<times> state"

definition returnM :: "'a \<Rightarrow> 'a M" where
  "returnM x = (\<lambda>s. (Inr x, s))"

definition raise :: "error \<Rightarrow> 'a M" where
  "raise e = (\<lambda>s. (Inl e, s))"

definition bindM :: "'a M \<Rightarrow> ('a \<Rightarrow> 'b M) \<Rightarrow> 'b M" where
  "bindM m f = (\<lambda>s. case m s of (Inl e, s') \<Rightarrow> (Inl e, s') | (Inr x, s') \<Rightarrow> f x s')"

definition lift :: "error + 'a \<Rightarrow> 'a M" where
  "lift r = (\<lambda>s. (r, s))"

fun is_model_call :: "event \<Rightarrow> bool" where
  "is_model_call (ModelCall a) = True"
| "is_model_call (ControlCall a) = False"

definition model_calls :: "state \<Rightarrow> nat" where
  "model_calls s = length (filter is_model_call (calls s))"

section \<open>apply_model\<close>

definition to_int32 :: "int \<Rightarrow> int" where
  "to_int32 v = (v + 2 ^ 31) mod 2 ^ 32 - 2 ^ 31"

text \<open>The probing loop of lines 327-332: \<open>k\<close> iterations are left, \<open>i\<close> is the next index.\<close>

primrec collect_control :: "out_dict \<Rightarrow> nat \<Rightarrow> nat \<Rightarrow> tensor list" where
  "collect_control out i 0 = []"
| "collect_control out i (Suc k) =
     (case map_of out (Control i) of
        None \<Rightarrow> []
      | Some v \<Rightarrow> v # collect_control out (Suc i) k)"

definition call_control :: "services \<Rightarrow> control_args \<Rightarrow> out_dict M" where
  "call_control env a = (\<lambda>s. (control_infer env a, s\<lparr>calls := calls s @ [ControlCall a]\<rparr>))"

definition call_model :: "services \<Rightarrow> unet_args \<Rightarrow> out_dict M" where
  "call_model env a = (\<lambda>s. (model_infer env a, s\<lparr>calls := calls s @ [ModelCall a]\<rparr>))"

definition scale_control :: "tensor list \<Rightarrow> real list option \<Rightarrow> tensor list M" where
  "scale_control control control_scales =
     (case control_scales of
        None \<Rightarrow> returnM control
      | Some scales \<Rightarrow>
          if length scales = length control
          then returnM (map2 (\<lambda>c scale. muls c scale) control scales)
          else raise AssertionError)"

definition apply_model ::
  "services \<Rightarrow> tensor \<Rightarrow> ttensor option \<Rightarrow> conditioning \<Rightarrow> real list option \<Rightarrow> tensor M" where
  "apply_model env x t cond control_scales =
     (case cond ''c_crossattn'' of
        None \<Rightarrow> raise KeyError
      | Some cc \<Rightarrow>
         (case t of
            None \<Rightarrow> raise AttributeError
          | Some tt \<Rightarrow>
              let t32 = map to_int32 tt in
              bindM
                (case cond ''c_concat'' of
                   None \<Rightarrow> raise KeyError
                 | Some None \<Rightarrow>
                     returnM \<lparr>u_x = x, u_t = t32, u_context = cc, u_control = []\<rparr>
                 | Some (Some hint) \<Rightarrow>
                     bindM (call_control env
                              \<lparr>c_x = x, c_t = t32, c_context = cc, c_hint = hint\<rparr>)
                       (\<lambda>control_out.
                          bindM (scale_control
                                   (collect_control control_out 0 (length control_out))
                                   control_scales)
                            (\<lambda>control.
                               returnM \<lparr>u_x = x, u_t = t32, u_context = cc,
                                        u_control = control\<rparr>)))
                (\<lambda>args.
                   bindM (call_model env args)
                     (\<lambda>out. case map_of out Logits of
                               None \<Rightarrow> raise KeyError
                             | Some logits \<Rightarrow> returnM logits))))"

section \<open>The guided denoise evaluator\<close>

text \<open>
  \<^verbatim>\<open>_get_model_output\<close> (lines 248-269). The conditioning \<open>c\<close> is a dict; the
  unconditional conditioning is \<open>None\<close> or a dict. A score corrector is the function
  \<^verbatim>\<open>modify_score\<close> of the hook; unpacking \<^verbatim>\<open>**corrector_kwargs\<close> of \<^verbatim>\<open>None\<close> is a TypeError.
\<close>

definition get_model_output ::
  "services \<Rightarrow> tensor \<Rightarrow> ttensor option \<Rightarrow> conditioning option \<Rightarrow> real \<Rightarrow>
   score_corrector option \<Rightarrow> conditioning \<Rightarrow> kwargs option \<Rightarrow> real list option \<Rightarrow> tensor M" where
  "get_model_output env x t unconditional_conditioning unconditional_guidance_scale
       score_corrector c corrector_kwargs control_scales =
     bindM
       (case unconditional_conditioning of
          None \<Rightarrow> apply_model env x t c control_scales
        | Some uc \<Rightarrow>
            if unconditional_guidance_scale = 1
            then apply_model env x t c control_scales
            else
              bindM (apply_model env x t c control_scales)
                (\<lambda>model_t.
                   bindM (apply_model env x t uc control_scales)
                     (\<lambda>model_uncond.
                        returnM (tadd model_uncond
                                   (smul unconditional_guidance_scale
                                      (tsub model_t model_uncond))))))
       (\<lambda>e_t.
          case score_corrector of
            None \<Rightarrow> returnM e_t
          | Some modify_score \<Rightarrow>
              if parameterization env = ''eps''
              then (case corrector_kwargs of
                      None \<Rightarrow> raise TypeError
                    | Some kw \<Rightarrow> returnM (modify_score e_t x t c kw))
              else raise AssertionError)"

section \<open>The sampler object and the reconstruction sub-step\<close>

text \<open>The attributes of \<^verbatim>\<open>self\<close>: the sampler kind and the buffers that make_schedule registers.\<close>

record sampler =
  sampler_kind :: Sampler
  ddpm_num_timesteps :: nat
  ddim_timesteps :: "int list"
  betas :: "real list"
  alphas_cumprod :: "real list"
  alphas_cumprod_prev :: "real list"
  sqrt_alphas_cumprod :: "real list"
  sqrt_one_minus_alphas_cumprod :: "real list"
  log_one_minus_alphas_cumprod :: "real list"
  sqrt_recip_alphas_cumprod :: "real list"
  sqrt_recipm1_alphas_cumprod :: "real list"
  ddim_sigmas :: "real list"
  ddim_alphas :: "real list"
  ddim_alphas_prev :: "real list"
  ddim_sqrt_one_minus_alphas :: "real list"
  ddim_sigmas_for_original_num_steps :: "real list"

text \<open>Indexing \<^verbatim>\<open>xs[i]\<close>: a negative index counts from the end, and out of range raises.\<close>

definition py_index :: "'a list \<Rightarrow> int \<Rightarrow> error + 'a" where
  "py_index xs i =
     (if 0 \<le> i \<and> i < int (length xs) then Inr (xs ! nat i)
      else if i < 0 \<and> 0 \<le> int (length xs) + i then Inr (xs ! nat (int (length xs) + i))
      else Inl IndexError)"

definition draw_noise :: "services \<Rightarrow> nat \<Rightarrow> bool \<Rightarrow> tensor M" where
  "draw_noise env n repeat_noise =
     (\<lambda>s. (Inr (map (noise_like env (rng s) repeat_noise) [0..<n]), s\<lparr>rng := Suc (rng s)\<rparr>))"

text \<open>
  \<^verbatim>\<open>torch.nn.functional.dropout(noise, p)\<close> in training mode: \<open>p\<close> outside \<open>[0, 1]\<close> is
  a ValueError, \<open>p = 1\<close> zeroes every entry, otherwise the kept entries are divided by \<open>1 - p\<close>.
\<close>

definition dropout :: "services \<Rightarrow> tensor \<Rightarrow> real \<Rightarrow> tensor M" where
  "dropout env a p =
     (if p < 0 \<or> 1 < p then raise ValueError
      else (\<lambda>s. (Inr (if p = 1 then map (\<lambda>v. 0) a
                       else map (\<lambda>i. if dropout_keep env p (rng s) i then a ! i / (1 - p) else 0)
                              [0..<length a]),
                  s\<lparr>rng := Suc (rng s)\<rparr>)))"

text \<open>\<^verbatim>\<open>_get_x_prev_and_pred_x0\<close> (lines 271-303); \<^verbatim>\<open>quantize_denoised\<close> is not read by it.\<close>

definition get_x_prev_and_pred_x0 ::
  "services \<Rightarrow> sampler \<Rightarrow> bool \<Rightarrow> int \<Rightarrow> tensor \<Rightarrow> tensor \<Rightarrow> bool \<Rightarrow> bool \<Rightarrow> real \<Rightarrow> real \<Rightarrow>
   (tensor \<times> tensor) M" where
  "get_x_prev_and_pred_x0 env self use_original_steps index x e_t quantize_denoised
       repeat_noise temperature noise_dropout =
     (let alphas = (if use_original_steps then model_alphas_cumprod env else ddim_alphas self);
          alphas_prev = (if use_original_steps then model_alphas_cumprod_prev env
                         else ddim_alphas_prev self);
          sqrt_one_minus_alphas =
            (if use_original_steps then model_sqrt_one_minus_alphas_cumprod env
             else ddim_sqrt_one_minus_alphas self);
          sigmas = (if use_original_steps then model_ddim_sigmas_for_original_num_steps env
                    else ddim_sigmas self)
      in
      bindM (lift (py_index alphas index)) (\<lambda>a_t.
      bindM (lift (py_index alphas_prev index)) (\<lambda>a_prev.
      bindM (lift (py_index sigmas index)) (\<lambda>sigma_t.
      bindM (lift (py_index sqrt_one_minus_alphas index)) (\<lambda>sqrt_one_minus_at.
        let pred_x0 = sdiv (tsub x (smul sqrt_one_minus_at e_t)) (sqrt a_t);
            dir_xt = smul (sqrt (1 - a_prev - sigma_t ^ 2)) e_t
        in
        bindM (draw_noise env (length x) repeat_noise) (\<lambda>nz.
        bindM (if 0 < noise_dropout
               then dropout env (muls (smul sigma_t nz) temperature) noise_dropout
               else returnM (muls (smul sigma_t nz) temperature)) (\<lambda>noise.
          returnM (tadd (tadd (smul (sqrt a_prev) pred_x0) dir_xt) noise, pred_x0))))))))"

section \<open>The step functions\<close>

text \<open>The tuple a step returns: DDIM gives two entries, PLMS three.\<close>

datatype outs = Outs2 tensor tensor | Outs3 tensor tensor tensor

definition nth_back :: "'a list \<Rightarrow> nat \<Rightarrow> 'a" where
  "nth_back xs k = xs ! (length xs - k)"

text \<open>
  \<^verbatim>\<open>PLMSSampler.p_sampling_fn\<close> (lines 358-436). \<^verbatim>\<open>old_eps\<close> defaults to \<^verbatim>\<open>None\<close>, whose
  \<^verbatim>\<open>len\<close> is a TypeError; \<open>nth_back eps k\<close> is \<^verbatim>\<open>old_eps[-k]\<close>, read only where
  \<open>k \<le> length eps\<close>.
\<close>

definition plms_p_sampling_fn ::
  "services \<Rightarrow> sampler \<Rightarrow> tensor \<Rightarrow> conditioning \<Rightarrow> ttensor option \<Rightarrow> int \<Rightarrow> bool \<Rightarrow> bool \<Rightarrow>
   bool \<Rightarrow> real \<Rightarrow> real \<Rightarrow> score_corrector option \<Rightarrow> kwargs option \<Rightarrow> real \<Rightarrow>
   conditioning option \<Rightarrow> tensor list option \<Rightarrow> ttensor option \<Rightarrow> real list option \<Rightarrow> outs M" where
  "plms_p_sampling_fn env self x c t index repeat_noise use_original_steps quantize_denoised
       temperature noise_dropout score_corrector corrector_kwargs
       unconditional_guidance_scale unconditional_conditioning old_eps t_next control_scales =
     bindM (get_model_output env x t unconditional_conditioning unconditional_guidance_scale
              score_corrector c corrector_kwargs control_scales) (\<lambda>e_t.
     bindM (case old_eps of
              None \<Rightarrow> raise TypeError
            | Some eps \<Rightarrow>
                if length eps = 0 then
                  bindM (get_x_prev_and_pred_x0 env self use_original_steps index x e_t
                           quantize_denoised repeat_noise temperature noise_dropout)
                    (\<lambda>(x_prev, pred_x0).
                  bindM (get_model_output env x_prev t_next unconditional_conditioning
                           unconditional_guidance_scale score_corrector c corrector_kwargs
                           control_scales)
                    (\<lambda>e_t_next. returnM (sdiv (tadd e_t e_t_next) 2)))
                else if length eps = 1 then
                  returnM (sdiv (tsub (smul 3 e_t) (nth_back eps 1)) 2)
                else if length eps = 2 then
                  returnM (sdiv (tadd (tsub (smul 23 e_t) (smul 16 (nth_back eps 1)))
                                   (smul 5 (nth_back eps 2))) 12)
                else
                  returnM (sdiv (tsub (tadd (tsub (smul 55 e_t) (smul 59 (nth_back eps 1)))
                                         (smul 37 (nth_back eps 2)))
                                   (smul 9 (nth_back eps 3))) 24)) (\<lambda>e_t_prime.
     bindM (get_x_prev_and_pred_x0 env self use_original_steps index x e_t_prime
              quantize_denoised repeat_noise temperature noise_dropout) (\<lambda>(x_prev, pred_x0).
       returnM (Outs3 x_prev pred_x0 e_t))))"

text \<open>\<^verbatim>\<open>DDIMSampler.p_sampling_fn\<close> (lines 444-477).\<close>

definition ddim_p_sampling_fn ::
  "services \<Rightarrow> sampler \<Rightarrow> tensor \<Rightarrow> conditioning \<Rightarrow> ttensor option \<Rightarrow> int \<Rightarrow> bool \<Rightarrow> bool \<Rightarrow>
   bool \<Rightarrow> real \<Rightarrow> real \<Rightarrow> score_corrector option \<Rightarrow> kwargs option \<Rightarrow> real \<Rightarrow>
   conditioning option \<Rightarrow> tensor list option \<Rightarrow> ttensor option \<Rightarrow> real list option \<Rightarrow> outs M" where
  "ddim_p_sampling_fn env self x c t index repeat_noise use_original_steps quantize_denoised
       temperature noise_dropout score_corrector corrector_kwargs
       unconditional_guidance_scale unconditional_conditioning old_eps t_next control_scales =
     bindM (get_model_output env x t unconditional_conditioning unconditional_guidance_scale
              score_corrector c corrector_kwargs control_scales) (\<lambda>e_t.
     bindM (get_x_prev_and_pred_x0 env self use_original_steps index x e_t
              quantize_denoised repeat_noise temperature noise_dropout) (\<lambda>(x_prev, pred_x0).
       returnM (Outs2 x_prev pred_x0)))"

text \<open>The dispatch of \<^verbatim>\<open>self.p_sampling_fn\<close> on the class of the sampler.\<close>

definition p_sampling_fn ::
  "services \<Rightarrow> sampler \<Rightarrow> tensor \<Rightarrow> conditioning \<Rightarrow> ttensor option \<Rightarrow> int \<Rightarrow> bool \<Rightarrow> bool \<Rightarrow>
   bool \<Rightarrow> real \<Rightarrow> real \<Rightarrow> score_corrector option \<Rightarrow> kwargs option \<Rightarrow> real \<Rightarrow>
   conditioning option \<Rightarrow> tensor list option \<Rightarrow> ttensor option \<Rightarrow> real list option \<Rightarrow> outs M" where
  "p_sampling_fn env self =
     (case sampler_kind self of
        PLMS \<Rightarrow> plms_p_sampling_fn env self
      | DDIM \<Rightarrow> ddim_p_sampling_fn env self)"

section \<open>The sampling loop driver\<close>

text \<open>
  The keyword arguments of \<^verbatim>\<open>sampling_fn\<close> that every iteration reads. The two callbacks
  only observe the run and are left out.
\<close>

record run_args =
  r_cond :: conditioning
  r_use_original_steps :: bool
  r_quantize_denoised :: bool
  r_mask :: "tensor option"
  r_x0 :: "tensor option"
  r_log_every_t :: int
  r_temperature :: real
  r_noise_dropout :: real
  r_score_corrector :: "score_corrector option"
  r_corrector_kwargs :: "kwargs option"
  r_unconditional_guidance_scale :: real
  r_unconditional_conditioning :: "conditioning option"
  r_control_scales :: "real list option"

text \<open>The variables the loop carries: the state, the history, the two intermediate logs.\<close>

record loop_state =
  img :: tensor
  old_eps :: "tensor list option"
  x_inter :: "tensor list"
  pred_x0_inter :: "tensor list"





definition do_q_sample :: "services \<Rightarrow> tensor \<Rightarrow> ttensor \<Rightarrow> tensor M" where
  "do_q_sample env x0 ts = (\<lambda>s. (Inr (q_sample env x0 ts (rng s)), s\<lparr>rng := Suc (rng s)\<rparr>))"

text \<open>Line 215: \<^verbatim>\<open>img_orig * mask + (1.0 - mask) * img\<close>.\<close>

definition blend :: "tensor \<Rightarrow> tensor \<Rightarrow> tensor \<Rightarrow> tensor" where
  "blend img_orig mask_t im = tadd (tmul img_orig mask_t) (tmul (rsub 1 mask_t) im)"

text \<open>Lines 212-215.\<close>

definition mask_blend :: "services \<Rightarrow> run_args \<Rightarrow> ttensor \<Rightarrow> tensor \<Rightarrow> tensor M" where
  "mask_blend env a ts im =
     (case r_mask a of
        None \<Rightarrow> returnM im
      | Some mask_t \<Rightarrow>
          (case r_x0 a of
             None \<Rightarrow> raise AssertionError
           | Some x0 \<Rightarrow>
               bindM (do_q_sample env x0 ts) (\<lambda>img_orig. returnM (blend img_orig mask_t im))))"

text \<open>Lines 236-238: append, then drop the head once four entries are held.\<close>

definition update_eps :: "tensor list \<Rightarrow> tensor \<Rightarrow> tensor list" where
  "update_eps eps e_t = (if 4 \<le> length (eps @ [e_t]) then tl (eps @ [e_t]) else eps @ [e_t])"

fun outs0 :: "outs \<Rightarrow> tensor" where
  "outs0 (Outs2 a b) = a"
| "outs0 (Outs3 a b c) = a"

fun outs1 :: "outs \<Rightarrow> tensor" where
  "outs1 (Outs2 a b) = b"
| "outs1 (Outs3 a b c) = b"

text \<open>Lines 205-215: the arguments of the step of iteration \<open>i\<close>, after the optional blend.\<close>

definition step_ts :: "nat \<Rightarrow> int list \<Rightarrow> nat \<Rightarrow> ttensor" where
  "step_ts b time_range i = replicate b (time_range ! i)"

definition step_ts_next :: "sampler \<Rightarrow> nat \<Rightarrow> int list \<Rightarrow> nat \<Rightarrow> ttensor option" where
  "step_ts_next self b time_range i =
     (if sampler_kind self = PLMS
      then Some (replicate b (time_range ! (min (i + 1) (length time_range - 1))))
      else None)"

definition step_old_eps :: "sampler \<Rightarrow> loop_state \<Rightarrow> tensor list option" where
  "step_old_eps self ls = (if sampler_kind self = PLMS then old_eps ls else None)"

text \<open>Lines 203-232: one iteration up to the value \<^verbatim>\<open>outs\<close> of the step.\<close>

definition step_outs ::
  "services \<Rightarrow> sampler \<Rightarrow> run_args \<Rightarrow> nat \<Rightarrow> int list \<Rightarrow> int \<Rightarrow> nat \<Rightarrow> loop_state \<Rightarrow> outs M" where
  "step_outs env self a b time_range total_steps i ls =
     bindM (mask_blend env a (step_ts b time_range i) (img ls)) (\<lambda>im.
       p_sampling_fn env self im (r_cond a) (Some (step_ts b time_range i))
         (total_steps - int i - 1) False (r_use_original_steps a) (r_quantize_denoised a)
         (r_temperature a) (r_noise_dropout a) (r_score_corrector a) (r_corrector_kwargs a)
         (r_unconditional_guidance_scale a) (r_unconditional_conditioning a)
         (step_old_eps self ls) (step_ts_next self b time_range i) (r_control_scales a))"

text \<open>Lines 233-245: the history update and the intermediate log.\<close>

definition step_finish ::
  "sampler \<Rightarrow> run_args \<Rightarrow> int \<Rightarrow> nat \<Rightarrow> loop_state \<Rightarrow> outs \<Rightarrow> loop_state M" where
  "step_finish self a total_steps i ls out =
     bindM (if sampler_kind self = PLMS then
              (case out of
                 Outs2 x_prev pred_x0 \<Rightarrow> raise IndexError
               | Outs3 x_prev pred_x0 e_t \<Rightarrow>
                   (case old_eps ls of
                      None \<Rightarrow> raise AttributeError
                    | Some eps \<Rightarrow> returnM (Some (update_eps eps e_t))))
            else returnM None) (\<lambda>eps'.
       if r_log_every_t a = 0 then raise ZeroDivisionError
       else if (total_steps - int i - 1) mod r_log_every_t a = 0
               \<or> total_steps - int i - 1 = total_steps - 1
       then returnM \<lparr>img = outs0 out, old_eps = eps',
                     x_inter = x_inter ls @ [outs0 out],
                     pred_x0_inter = pred_x0_inter ls @ [outs1 out]\<rparr>
       else returnM \<lparr>img = outs0 out, old_eps = eps',
                     x_inter = x_inter ls, pred_x0_inter = pred_x0_inter ls\<rparr>)"

definition loop_body ::
  "services \<Rightarrow> sampler \<Rightarrow> run_args \<Rightarrow> nat \<Rightarrow> int list \<Rightarrow> int \<Rightarrow> nat \<Rightarrow> loop_state \<Rightarrow>
   loop_state M" where
  "loop_body env self a b time_range total_steps i ls =
     bindM (step_outs env self a b time_range total_steps i ls)
       (step_finish self a total_steps i ls)"

text \<open>The first \<open>k\<close> iterations of the loop over \<^verbatim>\<open>enumerate(iterator)\<close>.\<close>

primrec run_steps ::
  "services \<Rightarrow> sampler \<Rightarrow> run_args \<Rightarrow> nat \<Rightarrow> int list \<Rightarrow> int \<Rightarrow> nat \<Rightarrow> loop_state \<Rightarrow>
   loop_state M" where
  "run_steps env self a b time_range total_steps 0 ls = returnM ls"
| "run_steps env self a b time_range total_steps (Suc k) ls =
     bindM (run_steps env self a b time_range total_steps k ls)
       (loop_body env self a b time_range total_steps k)"

text \<open>
  The estimate that iteration \<open>i\<close> of a run hands to the history update (the third entry of
  \<^verbatim>\<open>outs\<close>), and the list of these estimates for the first \<open>k\<close> iterations. They are read
  off the run itself and only serve to state what the history holds.
\<close>

definition iteration_e_t ::
  "services \<Rightarrow> sampler \<Rightarrow> run_args \<Rightarrow> nat \<Rightarrow> int list \<Rightarrow> int \<Rightarrow> loop_state \<Rightarrow> state \<Rightarrow> nat \<Rightarrow>
   tensor" where
  "iteration_e_t env self a b time_range total_steps ls0 s0 i =
     (case run_steps env self a b time_range total_steps i ls0 s0 of
        (Inl e, s) \<Rightarrow> []
      | (Inr ls, s) \<Rightarrow>
          (case step_outs env self a b time_range total_steps i ls s of
             (Inl e, s') \<Rightarrow> []
           | (Inr (Outs2 x_prev pred_x0), s') \<Rightarrow> []
           | (Inr (Outs3 x_prev pred_x0 e_t), s') \<Rightarrow> e_t))"

definition raw_estimates ::
  "services \<Rightarrow> sampler \<Rightarrow> run_args \<Rightarrow> nat \<Rightarrow> int list \<Rightarrow> int \<Rightarrow> loop_state \<Rightarrow> state \<Rightarrow> nat \<Rightarrow>
   tensor list" where
  "raw_estimates env self a b time_range total_steps ls0 s0 k =
     map (iteration_e_t env self a b time_range total_steps ls0 s0) [0..<k]"


section \<open>Schedule construction\<close>



text \<open>\<^verbatim>\<open>np.cumprod\<close>, from the left.\<close>

fun cumprod_from :: "real \<Rightarrow> real list \<Rightarrow> real list" where
  "cumprod_from acc [] = []"
| "cumprod_from acc (x # xs) = (acc * x) # cumprod_from (acc * x) xs"

definition cumprod :: "real list \<Rightarrow> real list" where
  "cumprod xs = cumprod_from 1 xs"

text \<open>The state of the object after \<^verbatim>\<open>__init__\<close>: no buffer is registered yet.\<close>

definition init_sampler :: "Sampler \<Rightarrow> sampler" where
  "init_sampler k =
     \<lparr>sampler_kind = k, ddpm_num_timesteps = 1000, ddim_timesteps = [], betas = [],
      alphas_cumprod = [], alphas_cumprod_prev = [], sqrt_alphas_cumprod = [],
      sqrt_one_minus_alphas_cumprod = [], log_one_minus_alphas_cumprod = [],
      sqrt_recip_alphas_cumprod = [], sqrt_recipm1_alphas_cumprod = [], ddim_sigmas = [],
      ddim_alphas = [], ddim_alphas_prev = [], ddim_sqrt_one_minus_alphas = [],
      ddim_sigmas_for_original_num_steps = []\<rparr>"





section \<open>Concrete collaborators for the worked instances\<close>

text \<open>
  A denoiser that answers with its context (or with the timestep when the context is
  \<^verbatim>\<open>None\<close>), a control service with two control signals, constant noise, one row of
  original-step coefficients, and a score corrector that adds one to every entry.
\<close>

definition mock_services :: services where
  "mock_services =
     \<lparr>model_infer =
        (\<lambda>a. Inr [(Logits, (case u_context a of
                               None \<Rightarrow> map real_of_int (u_t a)
                             | Some ctx \<Rightarrow> ctx))]),
      control_infer = (\<lambda>a. Inr [(Control 0, c_hint a), (Control 1, c_x a)]),
      parameterization = ''eps'',
      q_sample = (\<lambda>x0 ts n. x0),
      noise_like = (\<lambda>n r i. 1),
      randn = (\<lambda>n i. 0),
      dropout_keep = (\<lambda>p n i. True),
      model_alphas_cumprod = [1 / 4], model_alphas_cumprod_prev = [4 / 9],
      model_sqrt_one_minus_alphas_cumprod = [1 / 2],
      model_ddim_sigmas_for_original_num_steps = [1 / 3]\<rparr>"

definition hint_cond :: conditioning where
  "hint_cond = [''c_crossattn'' \<mapsto> Some [2, 2], ''c_concat'' \<mapsto> Some [7, 7]]"

definition plain_cond :: "tensor option \<Rightarrow> conditioning" where
  "plain_cond ctx = [''c_crossattn'' \<mapsto> ctx, ''c_concat'' \<mapsto> None]"

definition bump_corrector :: score_corrector where
  "bump_corrector e_t x t c kw = map (\<lambda>v. v + 1) e_t"

definition start :: state where
  "start = \<lparr>calls = [], rng = 0\<rparr>"

text \<open>
  A PLMS sampler whose reduced schedule has five steps, with coefficients under which the
  reconstruction returns its input state, and a run without guidance, mask or corrector.
\<close>

definition mock_sampler :: sampler where
  "mock_sampler =
     (init_sampler PLMS)
       \<lparr>ddim_timesteps := [1, 201, 401, 601, 801],
        ddim_sigmas := replicate 5 0,
        ddim_alphas := replicate 5 1,
        ddim_alphas_prev := replicate 5 1,
        ddim_sqrt_one_minus_alphas := replicate 5 0\<rparr>"

definition mock_args :: run_args where
  "mock_args =
     \<lparr>r_cond = plain_cond None, r_use_original_steps = False, r_quantize_denoised = False,
      r_mask = None, r_x0 = None, r_log_every_t = 100, r_temperature = 1,
      r_noise_dropout = 0, r_score_corrector = None, r_corrector_kwargs = None,
      r_unconditional_guidance_scale = 1, r_unconditional_conditioning = None,
      r_control_scales = None\<rparr>"

text \<open>The traversal order of that sampler's full plan, and the loop state a run starts from.\<close>

definition mock_range :: "int list" where
  "mock_range = [801, 601, 401, 201, 1]"

definition mock_ls0 :: loop_state where
  "mock_ls0 = \<lparr>img = [7], old_eps = Some [], x_inter = [[7]], pred_x0_inter = [[7]]\<rparr>"


section \<open>Facts about the state monad\<close>

lemma bindM_Inr:
  "bindM m f s = (Inr y, s') \<longleftrightarrow> (\<exists>x s1. m s = (Inr x, s1) \<and> f x s1 = (Inr y, s'))"
  by (auto simp: bindM_def split: prod.splits sum.splits)

lemma bindM_returnM [simp]: "bindM (returnM x) f = f x"
  by (simp add: bindM_def returnM_def)

lemma bindM_raise [simp]: "bindM (raise e) f = raise e"
  by (simp add: bindM_def raise_def)

lemma bindM_step:
  "m s = (Inr x, s1) \<Longrightarrow> bindM m f s = f x s1"
  by (simp add: bindM_def)

lemma bindM_fail:
  "m s = (Inl e, s1) \<Longrightarrow> bindM m f s = (Inl e, s1)"
  by (simp add: bindM_def)

lemma scale_control_Some:
  "scale_control control (Some scales) =
     (if length scales = length control
      then returnM (map2 (\<lambda>c scale. muls c scale) control scales) else raise AssertionError)"
  by (simp add: scale_control_def)

lemma apply_model_hint:
  assumes "cond ''c_crossattn'' = Some cc" "cond ''c_concat'' = Some (Some hint)"
    and "control_infer env \<lparr>c_x = x, c_t = map to_int32 tt, c_context = cc, c_hint = hint\<rparr> = Inr control_out"
  shows "apply_model env x (Some tt) cond control_scales s =
     bindM (scale_control (collect_control control_out 0 (length control_out)) control_scales)
       (\<lambda>control. bindM (call_model env \<lparr>u_x = x, u_t = map to_int32 tt, u_context = cc, u_control = control\<rparr>)
           (\<lambda>out. case map_of out Logits of None \<Rightarrow> raise KeyError | Some logits \<Rightarrow> returnM logits))
       (s\<lparr>calls := calls s @ [ControlCall \<lparr>c_x = x, c_t = map to_int32 tt, c_context = cc, c_hint = hint\<rparr>]\<rparr>)"
  using assms
  by (simp add: apply_model_def Let_def bindM_def call_control_def returnM_def raise_def split: prod.splits sum.splits)

section \<open>Claims about apply_model\<close>

text \<open>
  C7. A call of \<^verbatim>\<open>apply_model\<close> whose conditioning carries a hint, with a list
  \<^verbatim>\<open>control_scales\<close>: the control service is called and its control signals are collected.
  If the list's length differs from the number of collected signals, the call raises
  AssertionError and the denoising model has not been invoked (the only call recorded is
  the control service's). If the lengths agree, the denoising model is invoked with the
  control signals, the signal at every position multiplied by the scale at that position.
\<close>

theorem apply_model_control_scales:
  assumes "cond ''c_crossattn'' = Some cc" "cond ''c_concat'' = Some (Some hint)"
    and "control_infer env \<lparr>c_x = x, c_t = map to_int32 tt, c_context = cc, c_hint = hint\<rparr> = Inr control_out"
  shows "(length scales \<noteq> length (collect_control control_out 0 (length control_out)) \<longrightarrow>
            apply_model env x (Some tt) cond (Some scales) s =
              (Inl AssertionError,
               s\<lparr>calls := calls s @ [ControlCall \<lparr>c_x = x, c_t = map to_int32 tt, c_context = cc, c_hint = hint\<rparr>]\<rparr>)
            \<and> model_calls (snd (apply_model env x (Some tt) cond (Some scales) s)) = model_calls s)
       \<and> (length scales = length (collect_control control_out 0 (length control_out)) \<longrightarrow>
            (\<exists>control.
               length control = length (collect_control control_out 0 (length control_out))
               \<and> (\<forall>i < length control.
                     control ! i = muls (collect_control control_out 0 (length control_out) ! i) (scales ! i))
               \<and> calls (snd (apply_model env x (Some tt) cond (Some scales) s)) =
                   calls s @ [ControlCall \<lparr>c_x = x, c_t = map to_int32 tt, c_context = cc, c_hint = hint\<rparr>,
                              ModelCall \<lparr>u_x = x, u_t = map to_int32 tt, u_context = cc, u_control = control\<rparr>]))"
proof (intro conjI impI)
  let ?cargs = "\<lparr>c_x = x, c_t = map to_int32 tt, c_context = cc, c_hint = hint\<rparr>"
  let ?control = "collect_control control_out 0 (length control_out)"
  assume ne: "length scales \<noteq> length ?control"
  show "apply_model env x (Some tt) cond (Some scales) s =
          (Inl AssertionError, s\<lparr>calls := calls s @ [ControlCall ?cargs]\<rparr>)"
    using ne by (simp add: apply_model_hint [OF assms] scale_control_Some)
       (simp add: raise_def)
  then show "model_calls (snd (apply_model env x (Some tt) cond (Some scales) s)) = model_calls s"
    by (simp add: model_calls_def)
next
  let ?cargs = "\<lparr>c_x = x, c_t = map to_int32 tt, c_context = cc, c_hint = hint\<rparr>"
  let ?control = "collect_control control_out 0 (length control_out)"
  let ?scaled = "map2 (\<lambda>c scale. muls c scale) ?control scales"
  assume eq: "length scales = length ?control"
  have "calls (snd (apply_model env x (Some tt) cond (Some scales) s)) =
          calls s @ [ControlCall ?cargs,
                     ModelCall \<lparr>u_x = x, u_t = map to_int32 tt, u_context = cc, u_control = ?scaled\<rparr>]"
    using eq
    by (simp add: apply_model_hint [OF assms] scale_control_Some bindM_def call_model_def
          returnM_def raise_def split: sum.splits option.splits)
  moreover have "length ?scaled = length ?control" using eq by simp
  moreover have "\<forall>i < length ?scaled. ?scaled ! i = muls (?control ! i) (scales ! i)"
    using eq by simp
  ultimately show "\<exists>control.
               length control = length ?control
               \<and> (\<forall>i < length control. control ! i = muls (?control ! i) (scales ! i))
               \<and> calls (snd (apply_model env x (Some tt) cond (Some scales) s)) =
                   calls s @ [ControlCall ?cargs,
                              ModelCall \<lparr>u_x = x, u_t = map to_int32 tt, u_context = cc, u_control = control\<rparr>]"
    by blast
qed

theorem apply_model_control_scales_witness:
  "apply_model mock_services [1, 2] (Some [5]) hint_cond (Some [3]) start =
     (Inl AssertionError,
      \<lparr>calls = [ControlCall \<lparr>c_x = [1, 2], c_t = [5], c_context = Some [2, 2], c_hint = [7, 7]\<rparr>],
       rng = 0\<rparr>)
   \<and> (\<exists>control. control = [[21, 21], [4, 8]]
        \<and> calls (snd (apply_model mock_services [1, 2] (Some [5]) hint_cond (Some [3, 4]) start)) =
            [ControlCall \<lparr>c_x = [1, 2], c_t = [5], c_context = Some [2, 2], c_hint = [7, 7]\<rparr>,
             ModelCall \<lparr>u_x = [1, 2], u_t = [5], u_context = Some [2, 2], u_control = control\<rparr>])"
proof -
  have h1: "hint_cond ''c_crossattn'' = Some (Some [2, 2])"
    by (simp add: hint_cond_def)
  have h2: "hint_cond ''c_concat'' = Some (Some [7, 7])"
    by (simp add: hint_cond_def)
  have t32: "map to_int32 [5] = [5]"
    by (simp add: to_int32_def)
  have h3: "control_infer mock_services
              \<lparr>c_x = [1, 2], c_t = map to_int32 [5], c_context = Some [2, 2], c_hint = [7, 7]\<rparr>
            = Inr [(Control 0, [7, 7]), (Control 1, [1, 2])]"
    by (simp add: mock_services_def)
  have cc: "collect_control [(Control 0, [7, 7]), (Control 1, [1, 2])] 0
              (length [(Control 0, [7, 7]), (Control 1, [1, 2::real])]) = [[7, 7], [1, 2]]"
    by (simp add: numeral_2_eq_2)
  note inst = apply_model_control_scales [OF h1 h2 h3, unfolded cc t32]
  from inst [of "[3]" start] have a: "apply_model mock_services [1, 2] (Some [5]) hint_cond (Some [3]) start =
     (Inl AssertionError,
      \<lparr>calls = [ControlCall \<lparr>c_x = [1, 2], c_t = [5], c_context = Some [2, 2], c_hint = [7, 7]\<rparr>],
       rng = 0\<rparr>)"
    by (simp add: start_def)
  from inst [of "[3, 4]" start] have "\<exists>control. length control = Suc (Suc 0)
     \<and> (\<forall>i<length control. control ! i = muls ([[7, 7], [1, 2]] ! i) ([3, 4] ! i))
     \<and> calls (snd (apply_model mock_services [1, 2] (Some [5]) hint_cond (Some [3, 4]) start)) =
            [ControlCall \<lparr>c_x = [1, 2], c_t = [5], c_context = Some [2, 2], c_hint = [7, 7]\<rparr>,
             ModelCall \<lparr>u_x = [1, 2], u_t = [5], u_context = Some [2, 2], u_control = control\<rparr>]"
    by (simp add: start_def)
  then obtain control where
    c: "length control = Suc (Suc 0)" "\<forall>i<length control. control ! i = muls ([[7, 7], [1, 2]] ! i) ([3, 4] ! i)"
     "calls (snd (apply_model mock_services [1, 2] (Some [5]) hint_cond (Some [3, 4]) start)) =
            [ControlCall \<lparr>c_x = [1, 2], c_t = [5], c_context = Some [2, 2], c_hint = [7, 7]\<rparr>,
             ModelCall \<lparr>u_x = [1, 2], u_t = [5], u_context = Some [2, 2], u_control = control\<rparr>]"
    by blast
  from c(1,2) have "control ! 0 = [21, 21]" "control ! 1 = [4, 8]"
    by (simp_all add: muls_def)
  with c(1) have "control = [[21, 21], [4, 8]]"
    by (simp add: list_eq_iff_nth_eq less_Suc_eq numeral_2_eq_2)
  with a c(3) show ?thesis by simp
qed

lemma scale_control_state:
  "scale_control control cs s = (r, s') \<Longrightarrow> s' = s"
  by (auto simp: scale_control_def returnM_def raise_def split: option.splits if_splits)

lemma apply_model_model_calls:
  assumes "apply_model env x t cond cs s = (Inr out, s')"
  shows "model_calls s' = Suc (model_calls s)"
proof -
  from assms obtain cc tt where cc: "cond ''c_crossattn'' = Some cc" and tt: "t = Some tt"
    by (auto simp: apply_model_def raise_def split: option.splits)
  from assms [unfolded apply_model_def] cc tt
  obtain args s1 where
    a1: "(case cond ''c_concat'' of
                   None \<Rightarrow> raise KeyError
                 | Some None \<Rightarrow>
                     returnM \<lparr>u_x = x, u_t = map to_int32 tt, u_context = cc, u_control = []\<rparr>
                 | Some (Some hint) \<Rightarrow>
                     bindM (call_control env
                              \<lparr>c_x = x, c_t = map to_int32 tt, c_context = cc, c_hint = hint\<rparr>)
                       (\<lambda>control_out.
                          bindM (scale_control
                                   (collect_control control_out 0 (length control_out))
                                   cs)
                            (\<lambda>control.
                               returnM \<lparr>u_x = x, u_t = map to_int32 tt, u_context = cc,
                                        u_control = control\<rparr>))) s = (Inr args, s1)"
    and a2: "bindM (call_model env args)
                     (\<lambda>out. case map_of out Logits of
                               None \<Rightarrow> raise KeyError
                             | Some logits \<Rightarrow> returnM logits) s1 = (Inr out, s')"
    by (auto simp: Let_def bindM_Inr)
  from a1 have "model_calls s1 = model_calls s"
    by (auto simp: model_calls_def raise_def returnM_def bindM_Inr call_control_def
          split: option.splits dest!: scale_control_state)
  moreover from a2 have "model_calls s' = Suc (model_calls s1)"
    by (auto simp: model_calls_def raise_def returnM_def bindM_Inr call_model_def
          split: option.splits)
  ultimately show ?thesis by simp
qed

text \<open>The final pass of the evaluator: the score corrector, when one is supplied.\<close>

lemma get_model_output_single:
  assumes "uc = None \<or> scale = 1"
  shows "get_model_output env x t uc scale sc c kw cs =
     bindM (apply_model env x t c cs)
       (\<lambda>e_t. case sc of
            None \<Rightarrow> returnM e_t
          | Some modify_score \<Rightarrow>
              if parameterization env = ''eps''
              then (case kw of None \<Rightarrow> raise TypeError
                    | Some k \<Rightarrow> returnM (modify_score e_t x t c k))
              else raise AssertionError)"
  using assms by (auto simp: get_model_output_def split: option.splits)

lemma get_model_output_guided:
  assumes "scale \<noteq> 1"
  shows "get_model_output env x t (Some u) scale sc c kw cs =
     bindM (bindM (apply_model env x t c cs)
                (\<lambda>model_t.
                   bindM (apply_model env x t u cs)
                     (\<lambda>model_uncond.
                        returnM (tadd model_uncond (smul scale (tsub model_t model_uncond))))))
       (\<lambda>e_t. case sc of
            None \<Rightarrow> returnM e_t
          | Some modify_score \<Rightarrow>
              if parameterization env = ''eps''
              then (case kw of None \<Rightarrow> raise TypeError
                    | Some k \<Rightarrow> returnM (modify_score e_t x t c k))
              else raise AssertionError)"
  using assms by (simp add: get_model_output_def)

lemma corrector_pass:
  assumes "(case sc of
            None \<Rightarrow> returnM e_t
          | Some modify_score \<Rightarrow>
              if parameterization env = ''eps''
              then (case kw of None \<Rightarrow> raise TypeError
                    | Some k \<Rightarrow> returnM (modify_score e_t x t c k))
              else raise AssertionError) s1 = (Inr e, s')"
  shows "s' = s1 \<and> (sc = None \<longrightarrow> e = e_t)
         \<and> (\<forall>f. sc = Some f \<longrightarrow> parameterization env = ''eps'' \<and> (\<exists>k. kw = Some k \<and> e = f e_t x t c k))"
  using assms
  by (auto simp: returnM_def raise_def split: option.splits if_splits)

section \<open>Claims about the guided denoise evaluator\<close>

text \<open>
  C1 (amended). For every call of the evaluator that returns: if the unconditional
  conditioning is \<^verbatim>\<open>None\<close> or the guidance scale is 1, exactly one invocation of the denoising
  model is made (one \<^verbatim>\<open>apply_model\<close> call) and, when no score corrector is supplied, its
  output is the returned estimate; otherwise exactly two invocations are made (conditional,
  then unconditional) and, when no score corrector is supplied, the result is
  \<open>uncond_out + guidance_scale * (cond_out - uncond_out)\<close>. A supplied score corrector
  is applied to that value as a final pass, and its output is returned instead.
\<close>

theorem get_model_output_guidance:
  assumes "get_model_output env x t uc scale sc c kw cs s = (Inr e, s')"
  shows "(uc = None \<or> scale = 1 \<longrightarrow>
            model_calls s' = model_calls s + 1
            \<and> (\<exists>out. apply_model env x t c cs s = (Inr out, s')
                  \<and> (sc = None \<longrightarrow> e = out)
                  \<and> (\<forall>f. sc = Some f \<longrightarrow> (\<exists>k. kw = Some k \<and> e = f out x t c k))))
       \<and> (uc \<noteq> None \<and> scale \<noteq> 1 \<longrightarrow>
            model_calls s' = model_calls s + 2
            \<and> (\<exists>u cond_out uncond_out s1.
                  uc = Some u
                  \<and> apply_model env x t c cs s = (Inr cond_out, s1)
                  \<and> apply_model env x t u cs s1 = (Inr uncond_out, s')
                  \<and> (sc = None \<longrightarrow>
                        e = tadd uncond_out (smul scale (tsub cond_out uncond_out)))
                  \<and> (\<forall>f. sc = Some f \<longrightarrow>
                        (\<exists>k. kw = Some k
                           \<and> e = f (tadd uncond_out (smul scale (tsub cond_out uncond_out)))
                                   x t c k))))"
proof (intro conjI impI)
  assume single: "uc = None \<or> scale = 1"
  from assms [unfolded get_model_output_single [OF single]]
  obtain out s1 where a: "apply_model env x t c cs s = (Inr out, s1)"
    and p: "(case sc of
            None \<Rightarrow> returnM out
          | Some modify_score \<Rightarrow>
              if parameterization env = ''eps''
              then (case kw of None \<Rightarrow> raise TypeError
                    | Some k \<Rightarrow> returnM (modify_score out x t c k))
              else raise AssertionError) s1 = (Inr e, s')"
    by (auto simp: bindM_Inr)
  note cp = corrector_pass [OF p]
  from cp have s1: "s1 = s'" by simp
  show "model_calls s' = model_calls s + 1"
    using apply_model_model_calls [OF a] s1 by simp
  show "\<exists>out. apply_model env x t c cs s = (Inr out, s')
                  \<and> (sc = None \<longrightarrow> e = out)
                  \<and> (\<forall>f. sc = Some f \<longrightarrow> (\<exists>k. kw = Some k \<and> e = f out x t c k))"
    using a cp s1 by blast
next
  assume guided: "uc \<noteq> None \<and> scale \<noteq> 1"
  then obtain u where u: "uc = Some u" and ne: "scale \<noteq> 1" by auto
  from assms [unfolded u get_model_output_guided [OF ne]]
  obtain cond_out uncond_out s1 s2 where a1: "apply_model env x t c cs s = (Inr cond_out, s1)"
    and a2: "apply_model env x t u cs s1 = (Inr uncond_out, s2)"
    and p: "(case sc of
            None \<Rightarrow> returnM (tadd uncond_out (smul scale (tsub cond_out uncond_out)))
          | Some modify_score \<Rightarrow>
              if parameterization env = ''eps''
              then (case kw of None \<Rightarrow> raise TypeError
                    | Some k \<Rightarrow> returnM (modify_score
                          (tadd uncond_out (smul scale (tsub cond_out uncond_out))) x t c k))
              else raise AssertionError) s2 = (Inr e, s')"
    by (auto simp: bindM_Inr returnM_def)
  note cp = corrector_pass [OF p]
  from cp have s2: "s2 = s'" by simp
  show "model_calls s' = model_calls s + 2"
    using apply_model_model_calls [OF a1] apply_model_model_calls [OF a2] s2 by simp
  show "\<exists>u cond_out uncond_out s1.
                  uc = Some u
                  \<and> apply_model env x t c cs s = (Inr cond_out, s1)
                  \<and> apply_model env x t u cs s1 = (Inr uncond_out, s')
                  \<and> (sc = None \<longrightarrow>
                        e = tadd uncond_out (smul scale (tsub cond_out uncond_out)))
                  \<and> (\<forall>f. sc = Some f \<longrightarrow>
                        (\<exists>k. kw = Some k
                           \<and> e = f (tadd uncond_out (smul scale (tsub cond_out uncond_out)))
                                   x t c k))"
    using u a1 a2 cp s2 by blast
qed

lemma mock_apply_plain:
  "apply_model mock_services x (Some tt) (plain_cond ctx) cs s =
     (Inr (case ctx of None \<Rightarrow> map real_of_int (map to_int32 tt) | Some v \<Rightarrow> v),
      s\<lparr>calls := calls s @ [ModelCall \<lparr>u_x = x, u_t = map to_int32 tt, u_context = ctx,
                                         u_control = []\<rparr>]\<rparr>)"
  by (simp add: apply_model_def plain_cond_def mock_services_def bindM_def returnM_def
        call_model_def split: option.splits)

lemma to_int32_small [simp]: "0 \<le> v \<Longrightarrow> v < 1000 \<Longrightarrow> to_int32 v = v"
  by (simp add: to_int32_def)

theorem get_model_output_guidance_witness:
  "get_model_output mock_services [1, 1] (Some [5]) (Some (plain_cond (Some [0, 0]))) (3 / 2)
       None (plain_cond (Some [2, 2])) None None start =
     (Inr [3, 3],
      \<lparr>calls = [ModelCall \<lparr>u_x = [1, 1], u_t = [5], u_context = Some [2, 2], u_control = []\<rparr>,
                ModelCall \<lparr>u_x = [1, 1], u_t = [5], u_context = Some [0, 0], u_control = []\<rparr>],
       rng = 0\<rparr>)
   \<and> model_calls \<lparr>calls = [ModelCall \<lparr>u_x = [1, 1], u_t = [5], u_context = Some [2, 2],
                                       u_control = []\<rparr>,
                            ModelCall \<lparr>u_x = [1, 1], u_t = [5], u_context = Some [0, 0],
                                       u_control = []\<rparr>],
                   rng = 0\<rparr> = model_calls start + 2
   \<and> (\<exists>cond_out uncond_out.
         fst (apply_model mock_services [1, 1] (Some [5]) (plain_cond (Some [2, 2])) None start)
           = Inr cond_out
         \<and> [3, 3] = tadd uncond_out (smul (3 / 2) (tsub cond_out uncond_out)))"
proof -
  let ?s' = "\<lparr>calls = [ModelCall \<lparr>u_x = [1, 1], u_t = [5], u_context = Some [2, 2], u_control = []\<rparr>,
                ModelCall \<lparr>u_x = [1, 1], u_t = [5], u_context = Some [0, 0], u_control = []\<rparr>],
       rng = 0\<rparr>"
  have run: "get_model_output mock_services [1, 1] (Some [5]) (Some (plain_cond (Some [0, 0])))
       (3 / 2) None (plain_cond (Some [2, 2])) None None start = (Inr [3, 3], ?s')"
    by (simp add: get_model_output_def mock_apply_plain bindM_def returnM_def start_def
          tadd_def tsub_def smul_def)
  from get_model_output_guidance [OF run]
  have "model_calls ?s' = model_calls start + 2
     \<and> (\<exists>u cond_out uncond_out s1.
           Some (plain_cond (Some [0, 0])) = Some u
           \<and> apply_model mock_services [1, 1] (Some [5]) (plain_cond (Some [2, 2])) None start
               = (Inr cond_out, s1)
           \<and> apply_model mock_services [1, 1] (Some [5]) u None s1 = (Inr uncond_out, ?s')
           \<and> [3, 3] = tadd uncond_out (smul (3 / 2) (tsub cond_out uncond_out)))"
    by simp
  then have "model_calls ?s' = model_calls start + 2
     \<and> (\<exists>cond_out uncond_out.
         fst (apply_model mock_services [1, 1] (Some [5]) (plain_cond (Some [2, 2])) None start)
           = Inr cond_out
         \<and> [3, 3] = tadd uncond_out (smul (3 / 2) (tsub cond_out uncond_out)))"
    by (metis fst_conv)
  with run show ?thesis by blast
qed

text \<open>
  C1 as stated fails when a score corrector is supplied: with no unconditional conditioning
  and scale 1 the single \<^verbatim>\<open>apply_model\<close> call answers \<open>[2, 2]\<close>, and the evaluator returns the
  corrector's \<open>[3, 3]\<close>.
\<close>

theorem get_model_output_corrector_counterexample:
  "fst (apply_model mock_services [1, 1] (Some [5]) (plain_cond (Some [2, 2])) None start)
     = Inr [2, 2]
   \<and> model_calls (snd (get_model_output mock_services [1, 1] (Some [5]) None 1
                          (Some bump_corrector) (plain_cond (Some [2, 2])) (Some []) None start))
       = 1
   \<and> fst (get_model_output mock_services [1, 1] (Some [5]) None 1 (Some bump_corrector)
            (plain_cond (Some [2, 2])) (Some []) None start)
     = Inr [3, 3]"
  by (simp add: get_model_output_def mock_apply_plain bindM_def returnM_def start_def
        bump_corrector_def model_calls_def)
    (simp add: mock_services_def)

section \<open>Claims about the reconstruction sub-step\<close>

lemma lift_Inr [simp]: "lift (Inr v) = returnM v"
  by (simp add: lift_def returnM_def)

lemma draw_noise_eq:
  "draw_noise env n rn s =
     (Inr (map (noise_like env (rng s) rn) [0..<n]), s\<lparr>rng := Suc (rng s)\<rparr>)"
  by (simp add: draw_noise_def)

lemma get_x_prev_and_pred_x0_found:
  assumes "py_index (if uos then model_alphas_cumprod env else ddim_alphas self) index = Inr a_t"
    and "py_index (if uos then model_alphas_cumprod_prev env else ddim_alphas_prev self) index
           = Inr a_prev"
    and "py_index (if uos then model_ddim_sigmas_for_original_num_steps env
                   else ddim_sigmas self) index = Inr sigma_t"
    and "py_index (if uos then model_sqrt_one_minus_alphas_cumprod env
                   else ddim_sqrt_one_minus_alphas self) index = Inr sqrt_one_minus_at"
  shows "get_x_prev_and_pred_x0 env self uos index x e_t qd rn temperature nd s =
     bindM (if 0 < nd
            then dropout env (muls (smul sigma_t (map (noise_like env (rng s) rn) [0..<length x]))
                                temperature) nd
            else returnM (muls (smul sigma_t (map (noise_like env (rng s) rn) [0..<length x]))
                            temperature))
       (\<lambda>noise.
          returnM (tadd (tadd (smul (sqrt a_prev)
                                 (sdiv (tsub x (smul sqrt_one_minus_at e_t)) (sqrt a_t)))
                              (smul (sqrt (1 - a_prev - sigma_t ^ 2)) e_t)) noise,
                   sdiv (tsub x (smul sqrt_one_minus_at e_t)) (sqrt a_t)))
       (s\<lparr>rng := Suc (rng s)\<rparr>)"
  using assms
  by (simp add: get_x_prev_and_pred_x0_def Let_def bindM_step [OF draw_noise_eq])

text \<open>
  C3 (amended). For every call of \<^verbatim>\<open>_get_x_prev_and_pred_x0\<close> whose four coefficient
  lookups at the given index succeed: the predicted clean sample is
  \<open>(x - sqrt_one_minus_at * e_t) / sqrt a_t\<close>, the direction term is
  \<open>sqrt (1 - a_prev - sigma_t^2) * e_t\<close>, and the returned \<open>x_prev\<close> is
  \<open>sqrt a_prev * pred_x0 + direction + noise term\<close>. The noise term is
  \<open>sigma_t * noise * temperature\<close> when \<^verbatim>\<open>noise_dropout\<close> is not positive; when
  \<^verbatim>\<open>noise_dropout\<close> is positive it is that value passed through dropout (kept entries divided
  by \<open>1 - noise_dropout\<close>, the others zero; all zero at \<^verbatim>\<open>noise_dropout = 1\<close>).
\<close>

theorem get_x_prev_and_pred_x0_formula:
  assumes "py_index (if uos then model_alphas_cumprod env else ddim_alphas self) index = Inr a_t"
    and "py_index (if uos then model_alphas_cumprod_prev env else ddim_alphas_prev self) index
           = Inr a_prev"
    and "py_index (if uos then model_ddim_sigmas_for_original_num_steps env
                   else ddim_sigmas self) index = Inr sigma_t"
    and "py_index (if uos then model_sqrt_one_minus_alphas_cumprod env
                   else ddim_sqrt_one_minus_alphas self) index = Inr sqrt_one_minus_at"
    and "pred_x0 = sdiv (tsub x (smul sqrt_one_minus_at e_t)) (sqrt a_t)"
    and "dir_xt = smul (sqrt (1 - a_prev - sigma_t ^ 2)) e_t"
    and "noise = muls (smul sigma_t (map (noise_like env (rng s) rn) [0..<length x])) temperature"
  shows "(nd \<le> 0 \<longrightarrow>
            get_x_prev_and_pred_x0 env self uos index x e_t qd rn temperature nd s =
              (Inr (tadd (tadd (smul (sqrt a_prev) pred_x0) dir_xt) noise, pred_x0),
               s\<lparr>rng := Suc (rng s)\<rparr>))
       \<and> (0 < nd \<and> nd < 1 \<longrightarrow>
            get_x_prev_and_pred_x0 env self uos index x e_t qd rn temperature nd s =
              (Inr (tadd (tadd (smul (sqrt a_prev) pred_x0) dir_xt)
                      (map (\<lambda>i. if dropout_keep env nd (Suc (rng s)) i
                                then noise ! i / (1 - nd) else 0) [0..<length noise]),
                    pred_x0),
               s\<lparr>rng := Suc (Suc (rng s))\<rparr>))
       \<and> (nd = 1 \<longrightarrow>
            get_x_prev_and_pred_x0 env self uos index x e_t qd rn temperature nd s =
              (Inr (tadd (tadd (smul (sqrt a_prev) pred_x0) dir_xt) (map (\<lambda>v. 0) noise),
                    pred_x0),
               s\<lparr>rng := Suc (Suc (rng s))\<rparr>))"
  unfolding get_x_prev_and_pred_x0_found [OF assms(1-4)] assms(5-7)
  by (simp add: dropout_def bindM_def returnM_def)

lemma sqrt_quarter: "sqrt (1 / 4) = 1 / 2"
  by (simp add: real_sqrt_divide)

lemma sqrt_four_ninths: "sqrt (4 / 9) = 2 / 3"
proof -
  have "sqrt ((2 / 3)\<^sup>2) = \<bar>2 / 3 :: real\<bar>" by (rule real_sqrt_abs)
  then show ?thesis by (simp add: power2_eq_square)
qed

theorem get_x_prev_and_pred_x0_formula_witness:
  "get_x_prev_and_pred_x0 mock_services mock_sampler True 0 [5, 3] [2, 4] False False 2 0 start =
     (Inr ([22 / 3, 14 / 3], [8, 2]), \<lparr>calls = [], rng = 1\<rparr>)
   \<and> get_x_prev_and_pred_x0 mock_services mock_sampler True 0 [5, 3] [2, 4] False False 2 (1 / 2)
       start = (Inr ([8, 16 / 3], [8, 2]), \<lparr>calls = [], rng = 2\<rparr>)
   \<and> get_x_prev_and_pred_x0 mock_services mock_sampler True 0 [5, 3] [2, 4] False False 2 1
       start = (Inr ([20 / 3, 4], [8, 2]), \<lparr>calls = [], rng = 2\<rparr>)"
proof -
  have h1: "py_index (if True then model_alphas_cumprod mock_services
                      else ddim_alphas mock_sampler) 0 = Inr (1 / 4)"
    by (simp add: py_index_def mock_services_def)
  have h2: "py_index (if True then model_alphas_cumprod_prev mock_services
                      else ddim_alphas_prev mock_sampler) 0 = Inr (4 / 9)"
    by (simp add: py_index_def mock_services_def)
  have h3: "py_index (if True then model_ddim_sigmas_for_original_num_steps mock_services
                      else ddim_sigmas mock_sampler) 0 = Inr (1 / 3)"
    by (simp add: py_index_def mock_services_def)
  have h4: "py_index (if True then model_sqrt_one_minus_alphas_cumprod mock_services
                      else ddim_sqrt_one_minus_alphas mock_sampler) 0 = Inr (1 / 2)"
    by (simp add: py_index_def mock_services_def)
  have p: "[8, 2] = sdiv (tsub [5, 3] (smul (1 / 2) [2, 4])) (sqrt (1 / 4))"
    by (simp add: sdiv_def tsub_def smul_def sqrt_quarter)
  have d: "[4 / 3, 8 / 3] = smul (sqrt (1 - 4 / 9 - (1 / 3) ^ 2)) [2, 4]"
  proof -
    have e: "1 - 4 / 9 - (1 / 3) ^ 2 = (4 / 9 :: real)" by (simp add: power2_eq_square)
    show ?thesis unfolding e by (simp add: smul_def sqrt_four_ninths)
  qed
  have n: "[2 / 3, 2 / 3] =
             muls (smul (1 / 3) (map (noise_like mock_services (rng start) False)
                                   [0..<length [5, 3 :: real]])) 2"
    by (simp add: muls_def smul_def mock_services_def numeral_2_eq_2)
  note f = get_x_prev_and_pred_x0_formula [OF h1 h2 h3 h4 p d n, where qd = False]
  have a: "tadd (tadd (smul (sqrt (4 / 9)) [8, 2]) [4 / 3, 8 / 3]) [2 / 3, 2 / 3]
             = [22 / 3, 14 / 3]"
    by (simp add: tadd_def smul_def sqrt_four_ninths)
  have b: "tadd (tadd (smul (sqrt (4 / 9)) [8, 2]) [4 / 3, 8 / 3])
             (map (\<lambda>i. if dropout_keep mock_services (1 / 2) (Suc (rng start)) i
                        then [2 / 3, 2 / 3] ! i / (1 - 1 / 2) else 0)
                [0..<length [2 / 3, 2 / 3 :: real]])
             = [8, 16 / 3]"
    by (simp add: tadd_def smul_def sqrt_four_ninths mock_services_def numeral_2_eq_2)
  have c: "tadd (tadd (smul (sqrt (4 / 9)) [8, 2]) [4 / 3, 8 / 3]) (map (\<lambda>v. 0) [2 / 3, 2 / 3])
             = [20 / 3, 4]"
    by (simp add: tadd_def smul_def sqrt_four_ninths)
  have st: "start\<lparr>rng := Suc (rng start)\<rparr> = \<lparr>calls = [], rng = 1\<rparr>"
    "start\<lparr>rng := Suc (Suc (rng start))\<rparr> = \<lparr>calls = [], rng = 2\<rparr>"
    by (simp_all add: start_def)
  from f [where nd = 0] f [where nd = "1 / 2"] f [where nd = 1] show ?thesis
    unfolding a b c st by simp
qed

text \<open>
  C3 as stated fails when \<^verbatim>\<open>noise_dropout\<close> is positive: with the coefficients
  \<open>a_t = 1/4\<close>, \<open>a_prev = 4/9\<close>, \<open>sigma_t = 1/3\<close>, \<open>sqrt_one_minus_at = 1/2\<close>, constant noise 1,
  temperature 2 and \<^verbatim>\<open>noise_dropout = 1/2\<close> the claimed value of \<open>x_prev\<close> is
  \<open>[22/3, 14/3]\<close>, and the function returns \<open>[8, 16/3]\<close>.
\<close>

theorem get_x_prev_and_pred_x0_dropout_counterexample:
  "tadd (tadd (smul (sqrt (4 / 9)) (sdiv (tsub [5, 3] (smul (1 / 2) [2, 4])) (sqrt (1 / 4))))
              (smul (sqrt (1 - 4 / 9 - (1 / 3) ^ 2)) [2, 4]))
        (muls (smul (1 / 3) [1, 1]) 2) = [22 / 3, 14 / 3]
   \<and> fst (get_x_prev_and_pred_x0 mock_services mock_sampler True 0 [5, 3] [2, 4] False False 2
            (1 / 2) start) = Inr ([8, 16 / 3], [8, 2])"
proof -
  have e: "1 - 4 / 9 - (1 / 3) ^ 2 = (4 / 9 :: real)" by (simp add: power2_eq_square)
  have "tadd (tadd (smul (sqrt (4 / 9)) (sdiv (tsub [5, 3] (smul (1 / 2) [2, 4])) (sqrt (1 / 4))))
              (smul (sqrt (1 - 4 / 9 - (1 / 3) ^ 2)) [2, 4]))
        (muls (smul (1 / 3) [1, 1]) 2) = [22 / 3, 14 / 3]"
    unfolding e by (simp add: tadd_def smul_def sdiv_def tsub_def muls_def sqrt_four_ninths
        sqrt_quarter)
  moreover have "fst (get_x_prev_and_pred_x0 mock_services mock_sampler True 0 [5, 3] [2, 4]
                        False False 2 (1 / 2) start) = Inr ([8, 16 / 3], [8, 2])"
    unfolding get_x_prev_and_pred_x0_def
    by (simp add: py_index_def mock_services_def Let_def bindM_def returnM_def draw_noise_def
        dropout_def start_def numeral_2_eq_2 e
        tadd_def smul_def sdiv_def tsub_def muls_def sqrt_four_ninths sqrt_quarter)
  ultimately show ?thesis by blast
qed

section \<open>Claims about the PLMS step\<close>

lemma get_model_output_model_calls:
  assumes "get_model_output env x t uc scale sc c kw cs s = (Inr e, s')"
  shows "model_calls s' = model_calls s + (if uc = None \<or> scale = 1 then 1 else 2)"
proof (cases "uc = None \<or> scale = 1")
  case True
  from assms [unfolded get_model_output_single [OF True]]
  obtain out s1 where a: "apply_model env x t c cs s = (Inr out, s1)"
    and p: "(case sc of
            None \<Rightarrow> returnM out
          | Some modify_score \<Rightarrow>
              if parameterization env = ''eps''
              then (case kw of None \<Rightarrow> raise TypeError
                    | Some k \<Rightarrow> returnM (modify_score out x t c k))
              else raise AssertionError) s1 = (Inr e, s')"
    by (auto simp: bindM_Inr)
  from corrector_pass [OF p] apply_model_model_calls [OF a] True show ?thesis by auto
next
  case False
  then obtain u where u: "uc = Some u" and ne: "scale \<noteq> 1" by auto
  from assms [unfolded u get_model_output_guided [OF ne]]
  obtain cond_out uncond_out s1 s2 where a1: "apply_model env x t c cs s = (Inr cond_out, s1)"
    and a2: "apply_model env x t u cs s1 = (Inr uncond_out, s2)"
    and p: "(case sc of
            None \<Rightarrow> returnM (tadd uncond_out (smul scale (tsub cond_out uncond_out)))
          | Some modify_score \<Rightarrow>
              if parameterization env = ''eps''
              then (case kw of None \<Rightarrow> raise TypeError
                    | Some k \<Rightarrow> returnM (modify_score
                          (tadd uncond_out (smul scale (tsub cond_out uncond_out))) x t c k))
              else raise AssertionError) s2 = (Inr e, s')"
    by (auto simp: bindM_Inr returnM_def)
  from corrector_pass [OF p] apply_model_model_calls [OF a1] apply_model_model_calls [OF a2]
    False show ?thesis by auto
qed

lemma lift_state: "lift r s = (q, s') \<Longrightarrow> s' = s"
  by (simp add: lift_def)

lemma dropout_calls: "dropout env a p s = (r, s') \<Longrightarrow> calls s' = calls s"
  by (auto simp: dropout_def raise_def split: if_splits)

lemma get_x_prev_and_pred_x0_calls:
  assumes "get_x_prev_and_pred_x0 env self uos index x e_t qd rn temperature nd s = (Inr r, s')"
  shows "calls s' = calls s"
  using assms
  by (auto simp: get_x_prev_and_pred_x0_def Let_def bindM_Inr lift_def draw_noise_def returnM_def
      split: if_splits dest!: dropout_calls)

lemma get_x_prev_and_pred_x0_model_calls:
  assumes "get_x_prev_and_pred_x0 env self uos index x e_t qd rn temperature nd s = (Inr r, s')"
  shows "model_calls s' = model_calls s"
  using get_x_prev_and_pred_x0_calls [OF assms] by (simp add: model_calls_def)

lemma nth_back_rev: "0 < k \<Longrightarrow> k \<le> length xs \<Longrightarrow> nth_back xs k = rev xs ! (k - 1)"
  by (simp add: nth_back_def rev_nth)

text \<open>The order-combined estimate of lines 388-421, as a function of the history.\<close>

lemma plms_step_unfold:
  assumes "plms_p_sampling_fn env self x c t index rn uos qd temperature nd sc kw scale uc
             (Some eps) t_next cs s = (Inr out, s')"
  shows "\<exists>e_t s1 e_t_prime s2 x_prev pred_x0.
      get_model_output env x t uc scale sc c kw cs s = (Inr e_t, s1)
    \<and> (if length eps = 0 then
          bindM (get_x_prev_and_pred_x0 env self uos index x e_t qd rn temperature nd)
            (\<lambda>(x_prev, pred_x0).
               bindM (get_model_output env x_prev t_next uc scale sc c kw cs)
                 (\<lambda>e_t_next. returnM (sdiv (tadd e_t e_t_next) 2)))
        else if length eps = 1 then
          returnM (sdiv (tsub (smul 3 e_t) (nth_back eps 1)) 2)
        else if length eps = 2 then
          returnM (sdiv (tadd (tsub (smul 23 e_t) (smul 16 (nth_back eps 1)))
                           (smul 5 (nth_back eps 2))) 12)
        else
          returnM (sdiv (tsub (tadd (tsub (smul 55 e_t) (smul 59 (nth_back eps 1)))
                                 (smul 37 (nth_back eps 2)))
                           (smul 9 (nth_back eps 3))) 24)) s1 = (Inr e_t_prime, s2)
    \<and> get_x_prev_and_pred_x0 env self uos index x e_t_prime qd rn temperature nd s2
        = (Inr (x_prev, pred_x0), s')
    \<and> out = Outs3 x_prev pred_x0 e_t"
proof -
  from assms [unfolded plms_p_sampling_fn_def]
  obtain e_t s1 where g: "get_model_output env x t uc scale sc c kw cs s = (Inr e_t, s1)"
    and r1: "bindM (case Some eps of
              None \<Rightarrow> raise TypeError
            | Some eps \<Rightarrow>
                if length eps = 0 then
                  bindM (get_x_prev_and_pred_x0 env self uos index x e_t qd rn temperature nd)
                    (\<lambda>(x_prev, pred_x0).
                  bindM (get_model_output env x_prev t_next uc scale sc c kw cs)
                    (\<lambda>e_t_next. returnM (sdiv (tadd e_t e_t_next) 2)))
                else if length eps = 1 then
                  returnM (sdiv (tsub (smul 3 e_t) (nth_back eps 1)) 2)
                else if length eps = 2 then
                  returnM (sdiv (tadd (tsub (smul 23 e_t) (smul 16 (nth_back eps 1)))
                                   (smul 5 (nth_back eps 2))) 12)
                else
                  returnM (sdiv (tsub (tadd (tsub (smul 55 e_t) (smul 59 (nth_back eps 1)))
                                         (smul 37 (nth_back eps 2)))
                                   (smul 9 (nth_back eps 3))) 24)) (\<lambda>e_t_prime.
     bindM (get_x_prev_and_pred_x0 env self uos index x e_t_prime qd rn temperature nd)
       (\<lambda>(x_prev, pred_x0). returnM (Outs3 x_prev pred_x0 e_t))) s1 = (Inr out, s')"
    by (subst (asm) bindM_Inr) blast
  from r1 obtain e_t_prime s2 where
    c: "(if length eps = 0 then
          bindM (get_x_prev_and_pred_x0 env self uos index x e_t qd rn temperature nd)
            (\<lambda>(x_prev, pred_x0).
               bindM (get_model_output env x_prev t_next uc scale sc c kw cs)
                 (\<lambda>e_t_next. returnM (sdiv (tadd e_t e_t_next) 2)))
        else if length eps = 1 then
          returnM (sdiv (tsub (smul 3 e_t) (nth_back eps 1)) 2)
        else if length eps = 2 then
          returnM (sdiv (tadd (tsub (smul 23 e_t) (smul 16 (nth_back eps 1)))
                           (smul 5 (nth_back eps 2))) 12)
        else
          returnM (sdiv (tsub (tadd (tsub (smul 55 e_t) (smul 59 (nth_back eps 1)))
                                 (smul 37 (nth_back eps 2)))
                           (smul 9 (nth_back eps 3))) 24)) s1 = (Inr e_t_prime, s2)"
    and r2: "bindM (get_x_prev_and_pred_x0 env self uos index x e_t_prime qd rn temperature nd)
       (\<lambda>(x_prev, pred_x0). returnM (Outs3 x_prev pred_x0 e_t)) s2 = (Inr out, s')"
    by (subst (asm) bindM_Inr) (simp only: option.case, blast)
  from r2 obtain r s3 where
    x: "get_x_prev_and_pred_x0 env self uos index x e_t_prime qd rn temperature nd s2
          = (Inr r, s3)"
    and o: "(case r of (x_prev, pred_x0) \<Rightarrow> returnM (Outs3 x_prev pred_x0 e_t)) s3 = (Inr out, s')"
    by (subst (asm) bindM_Inr) blast
  obtain x_prev pred_x0 where r: "r = (x_prev, pred_x0)" by (cases r)
  from o r have "s3 = s'" "out = Outs3 x_prev pred_x0 e_t"
    by (simp_all add: returnM_def)
  with g c x r show ?thesis by blast
qed

text \<open>
  C2. For every PLMS step that returns, called with a history list: the estimate passed to
  the final reconstruction is selected by the history depth. At depth 0 it is the average
  of the evaluator's output at the current state and of a second output, evaluated at
  \<^verbatim>\<open>t_next\<close> on the state reconstructed provisionally from the first; the step then makes
  two evaluator calls. At depth 1 it is \<open>(3 e_t - h1) / 2\<close>, at depth 2
  \<open>(23 e_t - 16 h1 + 5 h2) / 12\<close>, at depth 3 or more
  \<open>(55 e_t - 59 h1 + 37 h2 - 9 h3) / 24\<close>, where \<open>h1, h2, h3\<close> are the most recent
  history entries (\<open>rev eps ! 0\<close>, \<open>rev eps ! 1\<close>, \<open>rev eps ! 2\<close>); these steps make one
  evaluator call. An evaluator call invokes the denoising model once, or twice under guidance.
\<close>

theorem plms_combined_estimate:
  assumes "plms_p_sampling_fn env self x c t index rn uos qd temperature nd sc kw scale uc
             (Some eps) t_next cs s = (Inr out, s')"
  shows "\<exists>e_t s1 e_t_prime s2 x_prev pred_x0.
      get_model_output env x t uc scale sc c kw cs s = (Inr e_t, s1)
    \<and> get_x_prev_and_pred_x0 env self uos index x e_t_prime qd rn temperature nd s2
        = (Inr (x_prev, pred_x0), s')
    \<and> out = Outs3 x_prev pred_x0 e_t
    \<and> (length eps = 0 \<longrightarrow>
          (\<exists>x_prov pred_prov s1' e_t_next.
              get_x_prev_and_pred_x0 env self uos index x e_t qd rn temperature nd s1
                = (Inr (x_prov, pred_prov), s1')
            \<and> get_model_output env x_prov t_next uc scale sc c kw cs s1' = (Inr e_t_next, s2)
            \<and> e_t_prime = sdiv (tadd e_t e_t_next) 2)
          \<and> model_calls s' = model_calls s + 2 * (if uc = None \<or> scale = 1 then 1 else 2))
    \<and> (length eps = 1 \<longrightarrow>
          s2 = s1 \<and> e_t_prime = sdiv (tsub (smul 3 e_t) (rev eps ! 0)) 2
          \<and> model_calls s' = model_calls s + (if uc = None \<or> scale = 1 then 1 else 2))
    \<and> (length eps = 2 \<longrightarrow>
          s2 = s1
          \<and> e_t_prime = sdiv (tadd (tsub (smul 23 e_t) (smul 16 (rev eps ! 0)))
                                 (smul 5 (rev eps ! 1))) 12
          \<and> model_calls s' = model_calls s + (if uc = None \<or> scale = 1 then 1 else 2))
    \<and> (3 \<le> length eps \<longrightarrow>
          s2 = s1
          \<and> e_t_prime = sdiv (tsub (tadd (tsub (smul 55 e_t) (smul 59 (rev eps ! 0)))
                                       (smul 37 (rev eps ! 1)))
                                 (smul 9 (rev eps ! 2))) 24
          \<and> model_calls s' = model_calls s + (if uc = None \<or> scale = 1 then 1 else 2))"
proof -
  from plms_step_unfold [OF assms] obtain e_t s1 e_t_prime s2 x_prev pred_x0 where
    g: "get_model_output env x t uc scale sc c kw cs s = (Inr e_t, s1)"
    and c: "(if length eps = 0 then
          bindM (get_x_prev_and_pred_x0 env self uos index x e_t qd rn temperature nd)
            (\<lambda>(x_prev, pred_x0).
               bindM (get_model_output env x_prev t_next uc scale sc c kw cs)
                 (\<lambda>e_t_next. returnM (sdiv (tadd e_t e_t_next) 2)))
        else if length eps = 1 then
          returnM (sdiv (tsub (smul 3 e_t) (nth_back eps 1)) 2)
        else if length eps = 2 then
          returnM (sdiv (tadd (tsub (smul 23 e_t) (smul 16 (nth_back eps 1)))
                           (smul 5 (nth_back eps 2))) 12)
        else
          returnM (sdiv (tsub (tadd (tsub (smul 55 e_t) (smul 59 (nth_back eps 1)))
                                 (smul 37 (nth_back eps 2)))
                           (smul 9 (nth_back eps 3))) 24)) s1 = (Inr e_t_prime, s2)"
    and x: "get_x_prev_and_pred_x0 env self uos index x e_t_prime qd rn temperature nd s2
        = (Inr (x_prev, pred_x0), s')"
    and o: "out = Outs3 x_prev pred_x0 e_t"
    by blast
  let ?k = "if uc = None \<or> scale = 1 then 1 else (2::nat)"
  have m1: "model_calls s1 = model_calls s + ?k"
    using get_model_output_model_calls [OF g] by simp
  have m3: "model_calls s' = model_calls s2"
    by (rule get_x_prev_and_pred_x0_model_calls [OF x])
  have d0: "length eps = 0 \<longrightarrow>
          (\<exists>x_prov pred_prov s1' e_t_next.
              get_x_prev_and_pred_x0 env self uos index x e_t qd rn temperature nd s1
                = (Inr (x_prov, pred_prov), s1')
            \<and> get_model_output env x_prov t_next uc scale sc c kw cs s1' = (Inr e_t_next, s2)
            \<and> e_t_prime = sdiv (tadd e_t e_t_next) 2)
          \<and> model_calls s' = model_calls s + 2 * ?k"
  proof
    assume z: "length eps = 0"
    from c z have "bindM (get_x_prev_and_pred_x0 env self uos index x e_t qd rn temperature nd)
            (\<lambda>(x_prev, pred_x0).
               bindM (get_model_output env x_prev t_next uc scale sc c kw cs)
                 (\<lambda>e_t_next. returnM (sdiv (tadd e_t e_t_next) 2))) s1 = (Inr e_t_prime, s2)"
      by simp
    then obtain r s1' where
      p: "get_x_prev_and_pred_x0 env self uos index x e_t qd rn temperature nd s1 = (Inr r, s1')"
      and q: "(case r of (x_prev, pred_x0) \<Rightarrow>
               bindM (get_model_output env x_prev t_next uc scale sc c kw cs)
                 (\<lambda>e_t_next. returnM (sdiv (tadd e_t e_t_next) 2))) s1' = (Inr e_t_prime, s2)"
      by (subst (asm) bindM_Inr) blast
    obtain x_prov pred_prov where r: "r = (x_prov, pred_prov)" by (cases r)
    from q r obtain e_t_next where
      n: "get_model_output env x_prov t_next uc scale sc c kw cs s1' = (Inr e_t_next, s2)"
      and e: "e_t_prime = sdiv (tadd e_t e_t_next) 2"
      by (auto simp: bindM_Inr returnM_def)
    have "model_calls s1' = model_calls s1"
      by (rule get_x_prev_and_pred_x0_model_calls [OF p])
    with get_model_output_model_calls [OF n] m1 m3
    have "model_calls s' = model_calls s + 2 * ?k" by simp
    with p r n e show "(\<exists>x_prov pred_prov s1' e_t_next.
              get_x_prev_and_pred_x0 env self uos index x e_t qd rn temperature nd s1
                = (Inr (x_prov, pred_prov), s1')
            \<and> get_model_output env x_prov t_next uc scale sc c kw cs s1' = (Inr e_t_next, s2)
            \<and> e_t_prime = sdiv (tadd e_t e_t_next) 2)
          \<and> model_calls s' = model_calls s + 2 * ?k"
      by blast
  qed
  have d1: "length eps = 1 \<longrightarrow>
          s2 = s1 \<and> e_t_prime = sdiv (tsub (smul 3 e_t) (rev eps ! 0)) 2
          \<and> model_calls s' = model_calls s + ?k"
  proof
    assume l: "length eps = 1"
    with c have "returnM (sdiv (tsub (smul 3 e_t) (nth_back eps 1)) 2) s1 = (Inr e_t_prime, s2)"
      by simp
    moreover from l have "nth_back eps 1 = rev eps ! 0"
      by (simp add: nth_back_rev)
    ultimately show "s2 = s1 \<and> e_t_prime = sdiv (tsub (smul 3 e_t) (rev eps ! 0)) 2
          \<and> model_calls s' = model_calls s + ?k"
      using m1 m3 by (auto simp: returnM_def)
  qed
  have d2: "length eps = 2 \<longrightarrow>
          s2 = s1
          \<and> e_t_prime = sdiv (tadd (tsub (smul 23 e_t) (smul 16 (rev eps ! 0)))
                                 (smul 5 (rev eps ! 1))) 12
          \<and> model_calls s' = model_calls s + ?k"
  proof
    assume l: "length eps = 2"
    with c have "returnM (sdiv (tadd (tsub (smul 23 e_t) (smul 16 (nth_back eps 1)))
                           (smul 5 (nth_back eps 2))) 12) s1 = (Inr e_t_prime, s2)"
      by simp
    moreover from l have "nth_back eps 1 = rev eps ! 0" "nth_back eps 2 = rev eps ! 1"
      by (simp_all add: nth_back_rev)
    ultimately show "s2 = s1
          \<and> e_t_prime = sdiv (tadd (tsub (smul 23 e_t) (smul 16 (rev eps ! 0)))
                                 (smul 5 (rev eps ! 1))) 12
          \<and> model_calls s' = model_calls s + ?k"
      using m1 m3 by (auto simp: returnM_def)
  qed
  have d3: "3 \<le> length eps \<longrightarrow>
          s2 = s1
          \<and> e_t_prime = sdiv (tsub (tadd (tsub (smul 55 e_t) (smul 59 (rev eps ! 0)))
                                       (smul 37 (rev eps ! 1)))
                                 (smul 9 (rev eps ! 2))) 24
          \<and> model_calls s' = model_calls s + ?k"
  proof
    assume l: "3 \<le> length eps"
    then have "length eps \<noteq> 0" "length eps \<noteq> 1" "length eps \<noteq> 2" by auto
    with c have "returnM (sdiv (tsub (tadd (tsub (smul 55 e_t) (smul 59 (nth_back eps 1)))
                                 (smul 37 (nth_back eps 2)))
                           (smul 9 (nth_back eps 3))) 24) s1 = (Inr e_t_prime, s2)"
      by simp
    moreover from l have "nth_back eps 1 = rev eps ! 0" "nth_back eps 2 = rev eps ! 1"
      "nth_back eps 3 = rev eps ! 2"
      by (simp_all add: nth_back_rev)
    ultimately show "s2 = s1
          \<and> e_t_prime = sdiv (tsub (tadd (tsub (smul 55 e_t) (smul 59 (rev eps ! 0)))
                                       (smul 37 (rev eps ! 1)))
                                 (smul 9 (rev eps ! 2))) 24
          \<and> model_calls s' = model_calls s + ?k"
      using m1 m3 by (auto simp: returnM_def)
  qed
  from g x o d0 d1 d2 d3 show ?thesis by blast
qed

lemma mock_get_model_output:
  "get_model_output mock_services x (Some tt) None 1 None (plain_cond ctx) kw cs s =
     (Inr (case ctx of None \<Rightarrow> map real_of_int (map to_int32 tt) | Some v \<Rightarrow> v),
      s\<lparr>calls := calls s @ [ModelCall \<lparr>u_x = x, u_t = map to_int32 tt, u_context = ctx,
                                         u_control = []\<rparr>]\<rparr>)"
  by (simp add: get_model_output_def mock_apply_plain bindM_def returnM_def)

lemma mock_reconstruct:
  assumes "0 \<le> index" "index < 5"
  shows "get_x_prev_and_pred_x0 mock_services mock_sampler False index [v] [e] qd rn 1 0 s =
           (Inr ([v], [v]), s\<lparr>rng := Suc (rng s)\<rparr>)"
proof -
  have n: "nat index < 5" using assms by simp
  have l: "py_index (replicate 5 (1::real)) index = Inr 1"
    "py_index (replicate 5 (0::real)) index = Inr 0"
    using assms n by (simp_all add: py_index_def)
  show ?thesis
    by (simp add: get_x_prev_and_pred_x0_def mock_sampler_def init_sampler_def l Let_def
        draw_noise_def bindM_def returnM_def sdiv_def tsub_def smul_def tadd_def muls_def)
qed

lemma mock_plms_first:
  assumes "0 \<le> index" "index < 5" "0 \<le> t" "t < 1000" "0 \<le> tn" "tn < 1000"
  shows "plms_p_sampling_fn mock_services mock_sampler [v] (plain_cond None) (Some [t]) index
           False False False 1 0 None None 1 None (Some []) (Some [tn]) None s =
         (Inr (Outs3 [v] [v] [real_of_int t]),
          s\<lparr>calls := calls s @ [ModelCall \<lparr>u_x = [v], u_t = [t], u_context = None, u_control = []\<rparr>,
                                 ModelCall \<lparr>u_x = [v], u_t = [tn], u_context = None, u_control = []\<rparr>],
            rng := Suc (Suc (rng s))\<rparr>)"
  using assms
  by (simp add: plms_p_sampling_fn_def mock_get_model_output bindM_def mock_reconstruct
      returnM_def sdiv_def tadd_def)

theorem plms_combined_estimate_witness:
  "plms_p_sampling_fn mock_services mock_sampler [7] (plain_cond None) (Some [801]) 4
      False False False 1 0 None None 1 None (Some []) (Some [601]) None start =
     (Inr (Outs3 [7] [7] [801]),
      \<lparr>calls = [ModelCall \<lparr>u_x = [7], u_t = [801], u_context = None, u_control = []\<rparr>,
                ModelCall \<lparr>u_x = [7], u_t = [601], u_context = None, u_control = []\<rparr>],
       rng = 2\<rparr>)
   \<and> model_calls \<lparr>calls = [ModelCall \<lparr>u_x = [7], u_t = [801], u_context = None, u_control = []\<rparr>,
                            ModelCall \<lparr>u_x = [7], u_t = [601], u_context = None, u_control = []\<rparr>],
                   rng = 2\<rparr> = model_calls start + 2
   \<and> plms_p_sampling_fn mock_services mock_sampler [7] (plain_cond None) (Some [201]) 1
        False False False 1 0 None None 1 None (Some [[801], [601], [401]]) (Some [1]) None start =
       (Inr (Outs3 [7] [7] [201]),
        \<lparr>calls = [ModelCall \<lparr>u_x = [7], u_t = [201], u_context = None, u_control = []\<rparr>],
         rng = 1\<rparr>)
   \<and> (\<exists>e_t_prime.
         e_t_prime = sdiv (tsub (tadd (tsub (smul 55 [201]) (smul 59 [401])) (smul 37 [601]))
                             (smul 9 [801])) 24
         \<and> get_x_prev_and_pred_x0 mock_services mock_sampler False 1 [7] e_t_prime False False
             1 0 \<lparr>calls = [ModelCall \<lparr>u_x = [7], u_t = [201], u_context = None,
                                        u_control = []\<rparr>], rng = 0\<rparr>
             = (Inr ([7], [7]),
                \<lparr>calls = [ModelCall \<lparr>u_x = [7], u_t = [201], u_context = None,
                                       u_control = []\<rparr>], rng = 1\<rparr>))"
proof -
  let ?s1 = "\<lparr>calls = [ModelCall \<lparr>u_x = [7], u_t = [801], u_context = None, u_control = []\<rparr>,
                ModelCall \<lparr>u_x = [7], u_t = [601], u_context = None, u_control = []\<rparr>],
       rng = 2\<rparr>"
  let ?m = "\<lparr>calls = [ModelCall \<lparr>u_x = [7], u_t = [201], u_context = None, u_control = []\<rparr>],
             rng = 0\<rparr>"
  let ?s2 = "\<lparr>calls = [ModelCall \<lparr>u_x = [7], u_t = [201], u_context = None, u_control = []\<rparr>],
         rng = 1\<rparr>"
  have first: "plms_p_sampling_fn mock_services mock_sampler [7] (plain_cond None) (Some [801]) 4
      False False False 1 0 None None 1 None (Some []) (Some [601]) None start =
     (Inr (Outs3 [7] [7] [801]), ?s1)"
    by (simp add: mock_plms_first start_def)
  have g: "get_model_output mock_services [7] (Some [201]) None 1 None (plain_cond None)
             None None start = (Inr [201], ?m)"
    by (simp add: mock_get_model_output start_def)
  have later: "plms_p_sampling_fn mock_services mock_sampler [7] (plain_cond None) (Some [201]) 1
        False False False 1 0 None None 1 None (Some [[801], [601], [401]]) (Some [1]) None start =
       (Inr (Outs3 [7] [7] [201]), ?s2)"
    by (simp add: plms_p_sampling_fn_def g bindM_def returnM_def nth_back_def sdiv_def tsub_def
        tadd_def smul_def mock_reconstruct)
  from plms_combined_estimate [OF first]
  have c1: "model_calls ?s1 = model_calls start + 2"
    by auto
  from plms_combined_estimate [OF later] obtain e_t s1 e_t_prime s2 x_prev pred_x0 where
    a: "get_model_output mock_services [7] (Some [201]) None 1 None (plain_cond None)
             None None start = (Inr e_t, s1)"
    and b: "get_x_prev_and_pred_x0 mock_services mock_sampler False 1 [7] e_t_prime False False
             1 0 s2 = (Inr (x_prev, pred_x0), ?s2)"
    and c: "Outs3 [7] [7] [201] = Outs3 x_prev pred_x0 e_t"
    and d: "s2 = s1 \<and> e_t_prime = sdiv (tsub (tadd (tsub (smul 55 e_t)
                      (smul 59 (rev [[801], [601], [401]] ! 0)))
                      (smul 37 (rev [[801], [601], [401]] ! 1)))
                      (smul 9 (rev [[801], [601], [401]] ! 2))) 24"
    by auto
  from a g have e: "e_t = [201]" "s1 = ?m" by simp_all
  from c have xp: "x_prev = [7]" "pred_x0 = [7]" by auto
  have r: "rev [[801], [601], [401 :: real]] = [[401], [601], [801]]" by simp
  from b d have "\<exists>e_t_prime.
         e_t_prime = sdiv (tsub (tadd (tsub (smul 55 [201]) (smul 59 [401])) (smul 37 [601]))
                             (smul 9 [801])) 24
         \<and> get_x_prev_and_pred_x0 mock_services mock_sampler False 1 [7] e_t_prime False False
             1 0 ?m = (Inr ([7], [7]), ?s2)"
    unfolding e xp r by (simp add: numeral_2_eq_2)
  with first later c1 show ?thesis by blast
qed

section \<open>Claims about the history buffer\<close>

lemma update_eps_last: "last (update_eps eps e_t) = e_t"
  by (cases eps) (simp_all add: update_eps_def)

lemma update_eps_cases:
  "update_eps eps e_t = (if 3 \<le> length eps then tl eps @ [e_t] else eps @ [e_t])"
  by (cases eps) (auto simp: update_eps_def)

lemma update_eps_drop:
  assumes "length xs = j"
  shows "update_eps (drop (j - 3) xs) e = drop (Suc j - 3) (xs @ [e])"
proof (cases "3 \<le> j")
  case True
  then have l: "length (drop (j - 3) xs) = 3" using assms by simp
  from True have "Suc j - 3 = Suc (j - 3)" by simp
  moreover have "tl (drop (j - 3) xs) = drop (Suc (j - 3)) xs"
    by (simp add: drop_Suc tl_drop)
  ultimately show ?thesis using l True assms
    by (simp add: update_eps_cases)
next
  case False
  then show ?thesis using assms by (simp add: update_eps_cases)
qed

lemma step_finish_plms:
  assumes "sampler_kind self = PLMS" "old_eps ls = Some eps"
    and "step_finish self a total_steps i ls out s = (Inr ls', s')"
  shows "\<exists>x_prev pred_x0 e_t. out = Outs3 x_prev pred_x0 e_t
            \<and> old_eps ls' = Some (update_eps eps e_t) \<and> img ls' = x_prev \<and> s' = s"
proof (cases out)
  case (Outs2 x p)
  with assms show ?thesis
    by (simp add: step_finish_def bindM_def raise_def)
next
  case (Outs3 x p e)
  with assms show ?thesis
    by (auto simp: step_finish_def bindM_def raise_def returnM_def split: if_splits)
qed

lemma loop_body_plms:
  assumes "sampler_kind self = PLMS" "old_eps ls = Some eps"
    and "loop_body env self a b time_range total_steps i ls s = (Inr ls', s')"
  shows "\<exists>x_prev pred_x0 e_t.
            step_outs env self a b time_range total_steps i ls s
              = (Inr (Outs3 x_prev pred_x0 e_t), s')
            \<and> old_eps ls' = Some (update_eps eps e_t) \<and> img ls' = x_prev"
proof -
  from assms(3) obtain out s1 where
    o: "step_outs env self a b time_range total_steps i ls s = (Inr out, s1)"
    and f: "step_finish self a total_steps i ls out s1 = (Inr ls', s')"
    by (auto simp: loop_body_def bindM_Inr)
  from step_finish_plms [OF assms(1,2) f] o show ?thesis by auto
qed

lemma run_steps_Suc:
  assumes "run_steps env self a b time_range total_steps (Suc k) ls0 s0 = (Inr ls', s')"
  shows "\<exists>ls s. run_steps env self a b time_range total_steps k ls0 s0 = (Inr ls, s)
            \<and> loop_body env self a b time_range total_steps k ls s = (Inr ls', s')"
  using assms by (simp add: bindM_Inr)

lemma run_steps_earlier:
  assumes "run_steps env self a b time_range total_steps k ls0 s0 = (Inr ls, s)" "j \<le> k"
  shows "\<exists>lsj sj. run_steps env self a b time_range total_steps j ls0 s0 = (Inr lsj, sj)"
  using assms
proof (induction k arbitrary: ls s)
  case 0
  then show ?case by simp
next
  case (Suc k)
  show ?case
  proof (cases "j = Suc k")
    case True
    with Suc.prems show ?thesis by blast
  next
    case False
    with Suc.prems have "j \<le> k" by simp
    moreover from run_steps_Suc [OF Suc.prems(1)] obtain lsk sk where
      "run_steps env self a b time_range total_steps k ls0 s0 = (Inr lsk, sk)" by blast
    ultimately show ?thesis using Suc.IH by blast
  qed
qed

lemma length_raw_estimates [simp]:
  "length (raw_estimates env self a b time_range total_steps ls0 s0 k) = k"
  by (simp add: raw_estimates_def)

lemma raw_estimates_Suc:
  "raw_estimates env self a b time_range total_steps ls0 s0 (Suc k) =
     raw_estimates env self a b time_range total_steps ls0 s0 k
       @ [iteration_e_t env self a b time_range total_steps ls0 s0 k]"
  by (simp add: raw_estimates_def)

lemma run_steps_history:
  assumes "sampler_kind self = PLMS" "old_eps ls0 = Some []"
  shows "run_steps env self a b time_range total_steps k ls0 s0 = (Inr ls, s) \<Longrightarrow>
         old_eps ls = Some (drop (k - 3) (raw_estimates env self a b time_range total_steps ls0 s0 k))"
proof (induction k arbitrary: ls s)
  case 0
  then show ?case using assms(2) by (simp add: returnM_def raw_estimates_def)
next
  case (Suc k)
  from run_steps_Suc [OF Suc.prems] obtain lsk sk where
    r: "run_steps env self a b time_range total_steps k ls0 s0 = (Inr lsk, sk)"
    and l: "loop_body env self a b time_range total_steps k lsk sk = (Inr ls, s)"
    by blast
  let ?raw = "raw_estimates env self a b time_range total_steps ls0 s0 k"
  from Suc.IH [OF r] have h: "old_eps lsk = Some (drop (k - 3) ?raw)" .
  from loop_body_plms [OF assms(1) h l] obtain x_prev pred_x0 e_t where
    o: "step_outs env self a b time_range total_steps k lsk sk
          = (Inr (Outs3 x_prev pred_x0 e_t), s)"
    and u: "old_eps ls = Some (update_eps (drop (k - 3) ?raw) e_t)"
    by blast
  from r o have "iteration_e_t env self a b time_range total_steps ls0 s0 k = e_t"
    by (simp add: iteration_e_t_def)
  with u show ?case
    by (simp only: raw_estimates_Suc update_eps_drop [OF length_raw_estimates])
qed

text \<open>
  C4. In a PLMS run (the history starts empty) consider the state after any number \<open>j\<close> of
  completed iterations: the history holds the last three of the \<open>j\<close> estimates appended so
  far, in order, so its length is \<open>min j 3\<close>: it grows by one per iteration up to three
  and never exceeds three. After the fourth iteration it holds the estimates of iterations
  2, 3 and 4: the oldest of the first four has been removed.
\<close>

theorem plms_history_fifo:
  assumes "sampler_kind self = PLMS" "old_eps ls0 = Some []"
    and "run_steps env self a b time_range total_steps k ls0 s0 = (Inr ls, s)"
  shows "(\<forall>j \<le> k. \<exists>lsj sj eps.
            run_steps env self a b time_range total_steps j ls0 s0 = (Inr lsj, sj)
          \<and> old_eps lsj = Some eps
          \<and> eps = drop (j - 3) (raw_estimates env self a b time_range total_steps ls0 s0 j)
          \<and> length eps = min j 3 \<and> length eps \<le> 3)
       \<and> (4 \<le> k \<longrightarrow>
            (\<exists>ls4 s4. run_steps env self a b time_range total_steps 4 ls0 s0 = (Inr ls4, s4)
               \<and> old_eps ls4 =
                   Some [iteration_e_t env self a b time_range total_steps ls0 s0 1,
                         iteration_e_t env self a b time_range total_steps ls0 s0 2,
                         iteration_e_t env self a b time_range total_steps ls0 s0 3]))"
proof (intro conjI allI impI)
  fix j assume "j \<le> k"
  from run_steps_earlier [OF assms(3) this] obtain lsj sj where
    r: "run_steps env self a b time_range total_steps j ls0 s0 = (Inr lsj, sj)" by blast
  from run_steps_history [OF assms(1,2) r]
  have "old_eps lsj =
          Some (drop (j - 3) (raw_estimates env self a b time_range total_steps ls0 s0 j))" .
  moreover have "length (drop (j - 3) (raw_estimates env self a b time_range total_steps ls0 s0 j))
                   = min j 3"
    by auto
  ultimately show "\<exists>lsj sj eps.
            run_steps env self a b time_range total_steps j ls0 s0 = (Inr lsj, sj)
          \<and> old_eps lsj = Some eps
          \<and> eps = drop (j - 3) (raw_estimates env self a b time_range total_steps ls0 s0 j)
          \<and> length eps = min j 3 \<and> length eps \<le> 3"
    using r by auto
next
  assume "4 \<le> k"
  from run_steps_earlier [OF assms(3) this] obtain ls4 s4 where
    r: "run_steps env self a b time_range total_steps 4 ls0 s0 = (Inr ls4, s4)" by blast
  have "drop (4 - 3) (raw_estimates env self a b time_range total_steps ls0 s0 4) =
          [iteration_e_t env self a b time_range total_steps ls0 s0 1,
           iteration_e_t env self a b time_range total_steps ls0 s0 2,
           iteration_e_t env self a b time_range total_steps ls0 s0 3]"
  proof -
    have "[0..<4] = [0, 1, 2, 3 :: nat]" by code_simp
    then show ?thesis by (simp add: raw_estimates_def)
  qed
  with run_steps_history [OF assms(1,2) r] r
  show "\<exists>ls4 s4. run_steps env self a b time_range total_steps 4 ls0 s0 = (Inr ls4, s4)
               \<and> old_eps ls4 =
                   Some [iteration_e_t env self a b time_range total_steps ls0 s0 1,
                         iteration_e_t env self a b time_range total_steps ls0 s0 2,
                         iteration_e_t env self a b time_range total_steps ls0 s0 3]"
    by simp
qed

lemma step_outs_unfold:
  assumes "step_outs env self a b time_range total_steps i ls s = (Inr out, s')"
  shows "\<exists>im s0. mask_blend env a (step_ts b time_range i) (img ls) s = (Inr im, s0)
     \<and> p_sampling_fn env self im (r_cond a) (Some (step_ts b time_range i))
         (total_steps - int i - 1) False (r_use_original_steps a) (r_quantize_denoised a)
         (r_temperature a) (r_noise_dropout a) (r_score_corrector a) (r_corrector_kwargs a)
         (r_unconditional_guidance_scale a) (r_unconditional_conditioning a)
         (step_old_eps self ls) (step_ts_next self b time_range i) (r_control_scales a) s0
        = (Inr out, s')"
  using assms unfolding step_outs_def by (subst (asm) bindM_Inr) blast

text \<open>
  C5. In every iteration of a PLMS run that completes, the value appended to the history
  is the third entry of the triple the PLMS step returns, and that entry is the evaluator's
  output at the current state (after the optional blend) and timestep: the raw estimate, not
  the combination used for the reconstruction. After the update it is the last history entry.
\<close>

theorem plms_history_receives_raw_estimate:
  assumes "sampler_kind self = PLMS" "old_eps ls = Some eps"
    and "loop_body env self a b time_range total_steps i ls s = (Inr ls', s')"
  shows "\<exists>im s0 e_t s1 x_prev pred_x0.
      mask_blend env a (step_ts b time_range i) (img ls) s = (Inr im, s0)
    \<and> get_model_output env im (Some (step_ts b time_range i)) (r_unconditional_conditioning a)
        (r_unconditional_guidance_scale a) (r_score_corrector a) (r_cond a)
        (r_corrector_kwargs a) (r_control_scales a) s0 = (Inr e_t, s1)
    \<and> plms_p_sampling_fn env self im (r_cond a) (Some (step_ts b time_range i))
         (total_steps - int i - 1) False (r_use_original_steps a) (r_quantize_denoised a)
         (r_temperature a) (r_noise_dropout a) (r_score_corrector a) (r_corrector_kwargs a)
         (r_unconditional_guidance_scale a) (r_unconditional_conditioning a)
         (Some eps) (step_ts_next self b time_range i) (r_control_scales a) s0
        = (Inr (Outs3 x_prev pred_x0 e_t), s')
    \<and> old_eps ls' = Some (update_eps eps e_t)
    \<and> update_eps eps e_t = (if 3 \<le> length eps then tl eps @ [e_t] else eps @ [e_t])
    \<and> last (update_eps eps e_t) = e_t
    \<and> img ls' = x_prev"
proof -
  from loop_body_plms [OF assms] obtain x_prev pred_x0 e_t where
    o: "step_outs env self a b time_range total_steps i ls s
          = (Inr (Outs3 x_prev pred_x0 e_t), s')"
    and u: "old_eps ls' = Some (update_eps eps e_t)" and i: "img ls' = x_prev"
    by blast
  from step_outs_unfold [OF o] assms(1,2) obtain im s0 where
    m: "mask_blend env a (step_ts b time_range i) (img ls) s = (Inr im, s0)"
    and p: "plms_p_sampling_fn env self im (r_cond a) (Some (step_ts b time_range i))
         (total_steps - int i - 1) False (r_use_original_steps a) (r_quantize_denoised a)
         (r_temperature a) (r_noise_dropout a) (r_score_corrector a) (r_corrector_kwargs a)
         (r_unconditional_guidance_scale a) (r_unconditional_conditioning a)
         (Some eps) (step_ts_next self b time_range i) (r_control_scales a) s0
        = (Inr (Outs3 x_prev pred_x0 e_t), s')"
    by (auto simp: p_sampling_fn_def step_old_eps_def)
  from plms_step_unfold [OF p] obtain s1 where
    "get_model_output env im (Some (step_ts b time_range i)) (r_unconditional_conditioning a)
        (r_unconditional_guidance_scale a) (r_score_corrector a) (r_cond a)
        (r_corrector_kwargs a) (r_control_scales a) s0 = (Inr e_t, s1)"
    by auto
  with m p u i update_eps_cases [of eps e_t] update_eps_last [of eps e_t]
  show ?thesis by blast
qed

section \<open>The worked run\<close>

lemma mock_reconstruct_any:
  assumes "0 \<le> index" "index < 5" "length e = 1"
  shows "get_x_prev_and_pred_x0 mock_services mock_sampler False index [v] e qd rn 1 0 s =
           (Inr ([v], [v]), s\<lparr>rng := Suc (rng s)\<rparr>)"
proof -
  from assms(3) obtain h where "e = [h]" by (cases e) auto
  with mock_reconstruct [OF assms(1,2)] show ?thesis by simp
qed

lemma mock_plms_later:
  assumes "0 \<le> index" "index < 5" "0 \<le> t" "t < 1000" "eps \<noteq> []"
    and "\<forall>h \<in> set eps. length h = 1"
  shows "plms_p_sampling_fn mock_services mock_sampler [v] (plain_cond None) (Some [t]) index
           False False False 1 0 None None 1 None (Some eps) tn None s =
         (Inr (Outs3 [v] [v] [real_of_int t]),
          s\<lparr>calls := calls s @ [ModelCall \<lparr>u_x = [v], u_t = [t], u_context = None, u_control = []\<rparr>],
            rng := Suc (rng s)\<rparr>)"
proof -
  have nb: "length (nth_back eps k) = 1" if "0 < k" "k \<le> length eps" for k
    using that assms(6) by (simp add: nth_back_def)
  define G where "G = get_model_output mock_services [v] (Some [t]) None 1 None (plain_cond None)
                        None None"
  define C where "C = (\<lambda>e_t.
        if length eps = 1 then
          returnM (sdiv (tsub (smul 3 e_t) (nth_back eps 1)) 2)
        else if length eps = 2 then
          returnM (sdiv (tadd (tsub (smul 23 e_t) (smul 16 (nth_back eps 1)))
                           (smul 5 (nth_back eps 2))) 12)
        else
          returnM (sdiv (tsub (tadd (tsub (smul 55 e_t) (smul 59 (nth_back eps 1)))
                                 (smul 37 (nth_back eps 2)))
                           (smul 9 (nth_back eps 3))) 24) :: tensor M)"
  define R where "R = (\<lambda>e'. get_x_prev_and_pred_x0 mock_services mock_sampler False index [v] e'
                              False False 1 0)"
  let ?s1 = "s\<lparr>calls := calls s @ [ModelCall \<lparr>u_x = [v], u_t = [t], u_context = None,
                                                u_control = []\<rparr>]\<rparr>"
  have p: "plms_p_sampling_fn mock_services mock_sampler [v] (plain_cond None) (Some [t]) index
           False False False 1 0 None None 1 None (Some eps) tn None =
           bindM G (\<lambda>e_t. bindM (C e_t) (\<lambda>e'. bindM (R e')
              (\<lambda>(x_prev, pred_x0). returnM (Outs3 x_prev pred_x0 e_t))))"
    using assms(5) by (simp add: plms_p_sampling_fn_def G_def C_def R_def)
  have g: "G s = (Inr [real_of_int t], ?s1)"
    using assms(3,4) by (simp add: G_def mock_get_model_output)
  have "\<exists>e'. length e' = 1 \<and> C [real_of_int t] ?s1 = (Inr e', ?s1)"
  proof -
    from assms(5) have l0: "length eps \<noteq> 0" by simp
    consider "length eps = 1" | "length eps = 2" | "3 \<le> length eps"
      using l0 by linarith
    then show ?thesis
    proof cases
      case 1
      with nb [of 1] show ?thesis
        by (simp add: C_def returnM_def sdiv_def tsub_def smul_def)
    next
      case 2
      with nb [of 1] nb [of 2] show ?thesis
        by (simp add: C_def returnM_def sdiv_def tsub_def smul_def tadd_def)
    next
      case 3
      then have ne: "length eps \<noteq> 1" "length eps \<noteq> 2" by auto
      from 3 have n: "length (nth_back eps 1) = 1" "length (nth_back eps 2) = 1"
        "length (nth_back eps 3) = 1"
        using nb [of 1] nb [of 2] nb [of 3] by simp_all
      from l0 ne n show ?thesis
        by (simp add: C_def returnM_def sdiv_def tsub_def smul_def tadd_def)
    qed
  qed
  then obtain e' where e': "length e' = 1" and c: "C [real_of_int t] ?s1 = (Inr e', ?s1)"
    by blast
  have r: "R e' ?s1 = (Inr ([v], [v]), ?s1\<lparr>rng := Suc (rng ?s1)\<rparr>)"
    unfolding R_def by (rule mock_reconstruct_any [OF assms(1,2) e'])
  show ?thesis
    unfolding p by (simp add: bindM_def g c r returnM_def)
qed

lemma mock_range_bounds:
  assumes "i < 5"
  shows "0 \<le> mock_range ! i \<and> mock_range ! i < 1000"
proof -
  from assms consider "i = 0" | "i = 1" | "i = 2" | "i = 3" | "i = 4" by linarith
  then show ?thesis by cases (simp_all add: mock_range_def)
qed

lemma mock_step_outs:
  assumes "i < 5" "img ls = [v]" "old_eps ls = Some eps" "\<forall>h \<in> set eps. length h = 1"
  shows "\<exists>s'. step_outs mock_services mock_sampler mock_args 1 mock_range 5 i ls s =
           (Inr (Outs3 [v] [v] [real_of_int (mock_range ! i)]), s')"
proof -
  have k: "sampler_kind mock_sampler = PLMS"
    by (simp add: mock_sampler_def init_sampler_def)
  have ix: "0 \<le> 5 - int i - 1" "5 - int i - 1 < 5" using assms(1) by simp_all
  note t = mock_range_bounds [OF assms(1)]
  have "min (i + 1) (length mock_range - 1) < 5" by (simp add: mock_range_def)
  note tn = mock_range_bounds [OF this]
  have "\<exists>s'. plms_p_sampling_fn mock_services mock_sampler [v] (plain_cond None)
           (Some [mock_range ! i]) (5 - int i - 1)
           False False False 1 0 None None 1 None (Some eps)
           (Some [mock_range ! min (i + 1) (length mock_range - 1)]) None s =
         (Inr (Outs3 [v] [v] [real_of_int (mock_range ! i)]), s')"
  proof (cases "eps = []")
    case True
    then show ?thesis
      using mock_plms_first [OF ix conjunct1 [OF t] conjunct2 [OF t] conjunct1 [OF tn]
          conjunct2 [OF tn], of v s]
      by simp
  next
    case False
    then show ?thesis
      using mock_plms_later [OF ix conjunct1 [OF t] conjunct2 [OF t] False assms(4), of v _ s]
      by simp
  qed
  then show ?thesis
    using assms(2,3) k
    by (simp add: step_outs_def mask_blend_def mock_args_def p_sampling_fn_def step_ts_def
        step_ts_next_def step_old_eps_def)
qed

lemma mock_loop_body:
  assumes "i < 5" "img ls = [v]" "old_eps ls = Some eps" "\<forall>h \<in> set eps. length h = 1"
  shows "\<exists>s'. loop_body mock_services mock_sampler mock_args 1 mock_range 5 i ls s =
           (Inr \<lparr>img = [v], old_eps = Some (update_eps eps [real_of_int (mock_range ! i)]),
                 x_inter = x_inter ls @ (if i = 0 \<or> i = 4 then [[v]] else []),
                 pred_x0_inter = pred_x0_inter ls @ (if i = 0 \<or> i = 4 then [[v]] else [])\<rparr>,
            s')"
proof -
  have k: "sampler_kind mock_sampler = PLMS"
    by (simp add: mock_sampler_def init_sampler_def)
  from mock_step_outs [OF assms, of s] obtain s1 where
    o: "step_outs mock_services mock_sampler mock_args 1 mock_range 5 i ls s =
           (Inr (Outs3 [v] [v] [real_of_int (mock_range ! i)]), s1)" by blast
  have lg: "((5 - int i - 1) mod 100 = 0 \<or> 5 - int i - 1 = 5 - 1) \<longleftrightarrow> (i = 0 \<or> i = 4)"
    using assms(1) by auto
  have "step_finish mock_sampler mock_args 5 i ls (Outs3 [v] [v] [real_of_int (mock_range ! i)]) s1
      = (Inr \<lparr>img = [v], old_eps = Some (update_eps eps [real_of_int (mock_range ! i)]),
                 x_inter = x_inter ls @ (if i = 0 \<or> i = 4 then [[v]] else []),
                 pred_x0_inter = pred_x0_inter ls @ (if i = 0 \<or> i = 4 then [[v]] else [])\<rparr>,
            s1)"
    using assms(3) k lg
    by (simp add: step_finish_def mock_args_def returnM_def bindM_def)
  with o show ?thesis
    by (simp add: loop_body_def bindM_def)
qed

lemma mock_run_step:
  assumes "\<exists>s. run_steps mock_services mock_sampler mock_args 1 mock_range 5 k mock_ls0 start
                = (Inr ls, s)"
    and "k < 5" "img ls = [v]" "old_eps ls = Some eps" "\<forall>h \<in> set eps. length h = 1"
  shows "\<exists>s. run_steps mock_services mock_sampler mock_args 1 mock_range 5 (Suc k) mock_ls0 start
           = (Inr \<lparr>img = [v], old_eps = Some (update_eps eps [real_of_int (mock_range ! k)]),
                   x_inter = x_inter ls @ (if k = 0 \<or> k = 4 then [[v]] else []),
                   pred_x0_inter = pred_x0_inter ls @ (if k = 0 \<or> k = 4 then [[v]] else [])\<rparr>,
              s)"
proof -
  from assms(1) obtain s where
    r: "run_steps mock_services mock_sampler mock_args 1 mock_range 5 k mock_ls0 start
          = (Inr ls, s)" by blast
  from mock_loop_body [OF assms(2-5), of s] r show ?thesis
    by (auto simp: bindM_def)
qed

lemma mock_run_0:
  "\<exists>s. run_steps mock_services mock_sampler mock_args 1 mock_range 5 0 mock_ls0 start
         = (Inr mock_ls0, s)"
  by (simp add: returnM_def)

lemma mock_run_1:
  "\<exists>s. run_steps mock_services mock_sampler mock_args 1 mock_range 5 (Suc 0) mock_ls0 start
         = (Inr \<lparr>img = [7], old_eps = Some [[801]], x_inter = [[7], [7]],
                 pred_x0_inter = [[7], [7]]\<rparr>, s)"
  using mock_run_step [OF mock_run_0, of 7 "[]"]
  by (simp add: mock_ls0_def update_eps_def mock_range_def)

lemma mock_run_2:
  "\<exists>s. run_steps mock_services mock_sampler mock_args 1 mock_range 5 (Suc (Suc 0)) mock_ls0 start
         = (Inr \<lparr>img = [7], old_eps = Some [[801], [601]], x_inter = [[7], [7]],
                 pred_x0_inter = [[7], [7]]\<rparr>, s)"
  using mock_run_step [OF mock_run_1, of 7 "[[801]]"]
  by (simp add: update_eps_def mock_range_def)

lemma mock_run_3:
  "\<exists>s. run_steps mock_services mock_sampler mock_args 1 mock_range 5 (Suc (Suc (Suc 0)))
          mock_ls0 start
         = (Inr \<lparr>img = [7], old_eps = Some [[801], [601], [401]], x_inter = [[7], [7]],
                 pred_x0_inter = [[7], [7]]\<rparr>, s)"
  using mock_run_step [OF mock_run_2, of 7 "[[801], [601]]"]
  by (simp add: update_eps_def mock_range_def)

lemma mock_run_4:
  "\<exists>s. run_steps mock_services mock_sampler mock_args 1 mock_range 5 (Suc (Suc (Suc (Suc 0))))
          mock_ls0 start
         = (Inr \<lparr>img = [7], old_eps = Some [[601], [401], [201]], x_inter = [[7], [7]],
                 pred_x0_inter = [[7], [7]]\<rparr>, s)"
  using mock_run_step [OF mock_run_3, of 7 "[[801], [601], [401]]"]
  by (simp add: update_eps_def mock_range_def)

lemma mock_iteration_e_t:
  assumes "\<exists>s. run_steps mock_services mock_sampler mock_args 1 mock_range 5 k mock_ls0 start
                = (Inr ls, s)"
    and "k < 5" "img ls = [v]" "old_eps ls = Some eps" "\<forall>h \<in> set eps. length h = 1"
  shows "iteration_e_t mock_services mock_sampler mock_args 1 mock_range 5 mock_ls0 start k
           = [real_of_int (mock_range ! k)]"
proof -
  from assms(1) obtain s where
    r: "run_steps mock_services mock_sampler mock_args 1 mock_range 5 k mock_ls0 start
          = (Inr ls, s)" by blast
  from mock_step_outs [OF assms(2-5), of s] obtain s' where
    "step_outs mock_services mock_sampler mock_args 1 mock_range 5 k ls s =
           (Inr (Outs3 [v] [v] [real_of_int (mock_range ! k)]), s')" by blast
  with r show ?thesis by (simp add: iteration_e_t_def)
qed

theorem plms_history_fifo_witness:
  "(\<exists>s. run_steps mock_services mock_sampler mock_args 1 mock_range 5 4 mock_ls0 start
         = (Inr \<lparr>img = [7], old_eps = Some [[601], [401], [201]], x_inter = [[7], [7]],
                 pred_x0_inter = [[7], [7]]\<rparr>, s))
   \<and> raw_estimates mock_services mock_sampler mock_args 1 mock_range 5 mock_ls0 start 4
       = [[801], [601], [401], [201]]
   \<and> (\<exists>ls2 s2 eps. run_steps mock_services mock_sampler mock_args 1 mock_range 5 2 mock_ls0 start
         = (Inr ls2, s2) \<and> old_eps ls2 = Some eps \<and> length eps = 2)
   \<and> (\<exists>ls4 s4. run_steps mock_services mock_sampler mock_args 1 mock_range 5 4 mock_ls0 start
         = (Inr ls4, s4)
        \<and> old_eps ls4 = Some [[601], [401], [201]])"
proof -
  have four: "4 = Suc (Suc (Suc (Suc 0)))" "3 = Suc (Suc (Suc 0))" "2 = Suc (Suc 0)"
    by simp_all
  have k: "sampler_kind mock_sampler = PLMS"
    by (simp add: mock_sampler_def init_sampler_def)
  have h: "old_eps mock_ls0 = Some []" by (simp add: mock_ls0_def)
  have e0: "iteration_e_t mock_services mock_sampler mock_args 1 mock_range 5 mock_ls0 start 0
              = [801]"
    using mock_iteration_e_t [OF mock_run_0, of 7 "[]"]
    by (simp add: mock_ls0_def mock_range_def)
  have e1: "iteration_e_t mock_services mock_sampler mock_args 1 mock_range 5 mock_ls0 start 1
              = [601]"
    using mock_iteration_e_t [OF mock_run_1, of 7 "[[801]]"]
    by (simp add: mock_range_def)
  have e2: "iteration_e_t mock_services mock_sampler mock_args 1 mock_range 5 mock_ls0 start 2
              = [401]"
    using mock_iteration_e_t [OF mock_run_2, of 7 "[[801], [601]]"]
    by (simp add: mock_range_def four)
  have e3: "iteration_e_t mock_services mock_sampler mock_args 1 mock_range 5 mock_ls0 start 3
              = [201]"
    using mock_iteration_e_t [OF mock_run_3, of 7 "[[801], [601], [401]]"]
    by (simp add: mock_range_def four)
  have u: "[0..<4] = [0, 1, 2, 3 :: nat]" by code_simp
  have raw: "raw_estimates mock_services mock_sampler mock_args 1 mock_range 5 mock_ls0 start 4
       = [[801], [601], [401], [201]]"
    by (simp only: raw_estimates_def u list.map e0 e1 e2 e3)
  from mock_run_4 obtain s4 where
    r4: "run_steps mock_services mock_sampler mock_args 1 mock_range 5 4 mock_ls0 start
         = (Inr \<lparr>img = [7], old_eps = Some [[601], [401], [201]], x_inter = [[7], [7]],
                 pred_x0_inter = [[7], [7]]\<rparr>, s4)"
    unfolding four by blast
  note f = plms_history_fifo [OF k h r4]
  from conjunct1 [OF f, rule_format, of 2] have "\<exists>ls2 s2 eps.
      run_steps mock_services mock_sampler mock_args 1 mock_range 5 2 mock_ls0 start
         = (Inr ls2, s2) \<and> old_eps ls2 = Some eps \<and> length eps = 2"
    by auto
  moreover from conjunct2 [OF f] have "\<exists>ls4 s4.
      run_steps mock_services mock_sampler mock_args 1 mock_range 5 4 mock_ls0 start
         = (Inr ls4, s4) \<and> old_eps ls4 = Some [[601], [401], [201]]"
    unfolding e1 e2 e3 by simp
  ultimately show ?thesis using r4 raw by blast
qed

theorem plms_history_receives_raw_estimate_witness:
  "(\<exists>s'. loop_body mock_services mock_sampler mock_args 1 mock_range 5 1
            \<lparr>img = [7], old_eps = Some [[801]], x_inter = [[7], [7]],
             pred_x0_inter = [[7], [7]]\<rparr> start
          = (Inr \<lparr>img = [7], old_eps = Some [[801], [601]], x_inter = [[7], [7]],
                   pred_x0_inter = [[7], [7]]\<rparr>, s'))
   \<and> fst (get_model_output mock_services [7] (Some [601]) None 1 None (plain_cond None)
            None None start) = Inr [601]
   \<and> (\<exists>e_t. fst (get_model_output mock_services [7] (Some [601]) None 1 None (plain_cond None)
                    None None start) = Inr e_t
          \<and> Some [[801], [601]] = Some (update_eps [[801]] e_t)
          \<and> last (update_eps [[801]] e_t) = e_t)"
proof -
  let ?ls1 = "\<lparr>img = [7], old_eps = Some [[801]], x_inter = [[7], [7]],
               pred_x0_inter = [[7], [7 :: real]]\<rparr>"
  let ?ls2 = "\<lparr>img = [7], old_eps = Some [[801], [601]], x_inter = [[7], [7]],
               pred_x0_inter = [[7], [7 :: real]]\<rparr>"
  have k: "sampler_kind mock_sampler = PLMS"
    by (simp add: mock_sampler_def init_sampler_def)
  have h: "old_eps ?ls1 = Some [[801]]" by simp
  from mock_loop_body [of 1 ?ls1 7 "[[801]]" start] obtain s' where
    b: "loop_body mock_services mock_sampler mock_args 1 mock_range 5 1 ?ls1 start
          = (Inr ?ls2, s')"
    by (auto simp: update_eps_def mock_range_def)
  have g: "get_model_output mock_services [7] (Some [601]) None 1 None (plain_cond None)
             None None start
           = (Inr [601], start\<lparr>calls := calls start @ [ModelCall \<lparr>u_x = [7], u_t = [601],
                                    u_context = None, u_control = []\<rparr>]\<rparr>)"
    by (simp add: mock_get_model_output)
  have m: "mask_blend mock_services mock_args (step_ts 1 mock_range 1) (img ?ls1) start
             = (Inr [7], start)"
    by (simp add: mask_blend_def mock_args_def returnM_def)
  have t: "step_ts 1 mock_range 1 = [601]"
    by (simp add: step_ts_def mock_range_def)
  from plms_history_receives_raw_estimate [OF k h b]
  obtain im s0 e_t s1 where
    m': "mask_blend mock_services mock_args (step_ts 1 mock_range 1) (img ?ls1) start
           = (Inr im, s0)"
    and g': "get_model_output mock_services im (Some (step_ts 1 mock_range 1))
               (r_unconditional_conditioning mock_args) (r_unconditional_guidance_scale mock_args)
               (r_score_corrector mock_args) (r_cond mock_args) (r_corrector_kwargs mock_args)
               (r_control_scales mock_args) s0 = (Inr e_t, s1)"
    and u: "old_eps ?ls2 = Some (update_eps [[801]] e_t)"
    and l: "last (update_eps [[801]] e_t) = e_t"
    by blast
  from m m' have "im = [7]" "s0 = start" by simp_all
  with g' t have "get_model_output mock_services [7] (Some [601]) None 1 None (plain_cond None)
             None None start = (Inr e_t, s1)"
    by (simp add: mock_args_def)
  then have "fst (get_model_output mock_services [7] (Some [601]) None 1 None (plain_cond None)
                    None None start) = Inr e_t" by simp
  moreover from g have "fst (get_model_output mock_services [7] (Some [601]) None 1 None
                               (plain_cond None) None None start) = Inr [601]" by simp
  ultimately show ?thesis using b u l by auto
qed

section \<open>Claims about the mask blend\<close>





section \<open>Claims about a mask without known pixels\<close>







section \<open>Claims about the truncated plan\<close>







section \<open>Claims about schedule construction\<close>

lemma length_cumprod_from [simp]: "length (cumprod_from acc xs) = length xs"
  by (induction xs arbitrary: acc) simp_all

lemma length_cumprod [simp]: "length (cumprod xs) = length xs"
  by (simp add: cumprod_def)




end
